theory Spec2Isabelle
  imports Complex_Main "HOL-Library.Word" "HOL-Library.Sublist"
begin

section \<open>The log entry schema (log\_manager.h)\<close>

text \<open>
  \<^verbatim>\<open>LOG_TABLE\<close> is an X-macro: a sequence of \<^verbatim>\<open>X(type, fmt, name)\<close> rows. The header
  expands it once, with \<^verbatim>\<open>#define X(type, fmt, name) type name ;\<close>, inside
  \<^verbatim>\<open>typedef struct log_entry_t { LOG_TABLE } log_entry_t;\<close>. The table is modelled as the
  list of its rows and the macro \<^verbatim>\<open>X\<close> as a function on one row.
\<close>

datatype ctype = uint64_t | double

type_synonym table_row = "ctype \<times> string \<times> string"

definition LOG_TABLE :: "table_row list" where
  "LOG_TABLE =
    [ (uint64_t, ''%lld'', ''loop_index''),
      (uint64_t, ''%lld'', ''last_step_us''),

      (double, ''%f'', ''altitude''),
      (double, ''%f'', ''roll''),
      (double, ''%f'', ''pitch''),
      (double, ''%f'', ''yaw''),

      (double, ''%f'', ''u_X''),
      (double, ''%f'', ''u_Y''),
      (double, ''%f'', ''u_Z''),
      (double, ''%f'', ''u_roll''),
      (double, ''%f'', ''u_pitch''),
      (double, ''%f'', ''u_yaw''),

      (double, ''%f'', ''mot_1''),
      (double, ''%f'', ''mot_2''),
      (double, ''%f'', ''mot_3''),
      (double, ''%f'', ''mot_4''),
      (double, ''%f'', ''mot_5''),
      (double, ''%f'', ''mot_6''),
      (double, ''%f'', ''v_batt'') ]"

text \<open>A struct member declaration \<^verbatim>\<open>type name ;\<close>.\<close>

type_synonym member = "ctype \<times> string"

text \<open>\<^verbatim>\<open>#define X(type, fmt, name) type name ;\<close>\<close>

fun X_member :: "table_row \<Rightarrow> member" where
  "X_member (type, fmt, name) = (type, name)"

text \<open>\<^verbatim>\<open>typedef struct log_entry_t { LOG_TABLE } log_entry_t;\<close>: the members of the struct, in
  declaration order.\<close>

definition log_entry_t :: "member list" where
  "log_entry_t = map X_member LOG_TABLE"

text \<open>Width in bits and kind of the two C types of the table (\<^verbatim>\<open>uint64_t\<close> is exactly 64 bits
  wide and unsigned; \<^verbatim>\<open>double\<close> is the 64-bit IEEE 754 binary format on the targets of this
  program).\<close>

datatype kind = unsigned_integer | floating_point

fun bits :: "ctype \<Rightarrow> nat" where
  "bits uint64_t = 64"
| "bits double = 64"

fun kind_of :: "ctype \<Rightarrow> kind" where
  "kind_of uint64_t = unsigned_integer"
| "kind_of double = floating_point"

text \<open>A value of the struct: the members of \<^verbatim>\<open>log_entry_t\<close> with the table's types (a
  \<^verbatim>\<open>double\<close> is taken as the real number it stands for).\<close>

record log_entry =
  loop_index :: "64 word"
  last_step_us :: "64 word"
  altitude :: real
  roll :: real
  pitch :: real
  yaw :: real
  u_X :: real
  u_Y :: real
  u_Z :: real
  u_roll :: real
  u_pitch :: real
  u_yaw :: real
  mot_1 :: real
  mot_2 :: real
  mot_3 :: real
  mot_4 :: real
  mot_5 :: real
  mot_6 :: real
  v_batt :: real

section \<open>The log manager\<close>

text \<open>
  \<^verbatim>\<open>log_manager.c\<close>, the implementation of the four functions that \<^verbatim>\<open>log_manager.h\<close> declares
  (\<^verbatim>\<open>start_log_manager\<close>, \<^verbatim>\<open>print_entry\<close>, \<^verbatim>\<open>add_log_entry\<close>, \<^verbatim>\<open>join_log_manager_thread\<close>) and of
  the writer thread, is not among the sources. The definitions of this section are modelled
  from sections 3 to 7 of the specification.

  The producer and the writer thread are interleaved as atomic steps on one state. Real time
  is not modelled: a timeout is the number of write attempts the writer can still make before
  it elapses. A data row of the file is identified with the entry it renders. What the file
  system does to an append is a parameter of every writer step.
\<close>

text \<open>Modelled from the spec: the lifecycle states of the logger (section 3); the
  implementation's state variable is missing.\<close>

datatype LoggerState = Uninitialized | Running | Draining | Stopped | Failed

text \<open>Modelled from the spec: the error taxonomy of section 7, missing with the
  implementation; \<open>ShutdownTimeout\<close> carries the reported count of lost entries.\<close>

datatype LogError = FileCreateError | AlreadyRunning | NotRunning | BufferFull | WriteFault
  | ShutdownTimeout nat

text \<open>Modelled from the spec: the global state of the missing implementation, that is the
  Log Manager with its Entry Buffer (oldest entry first), its LogFile (header line, data rows
  in file order, open or closed) and its counters of dropped entries, write faults and lost
  entries.\<close>

record 'e log_manager =
  lstate :: LoggerState
  capacity :: nat
  buffer :: "'e list"
  header :: "string list option"
  rows :: "'e list"
  file_open :: bool
  dropped :: nat
  faults :: nat
  lost :: nat

text \<open>Modelled from the spec: the header row that the missing \<^verbatim>\<open>start_log_manager\<close> writes,
  derived from the Schema Registry: the field names in schema order.\<close>

definition header_row :: "string list" where
  "header_row = map (\<lambda>(type, fmt, name). name) LOG_TABLE"

text \<open>Modelled from the spec: the body of \<^verbatim>\<open>start_log_manager\<close>, as section 4.1 describes
  \<open>start\<close>. The configuration is the buffer capacity; \<open>can_create\<close> tells whether the file can
  be created. The specification names no error for a start in the terminal state \<open>Failed\<close>;
  the calls after a failure are said to return \<open>NotRunning\<close>.\<close>

definition start :: "nat \<Rightarrow> bool \<Rightarrow> 'e log_manager \<Rightarrow> (LogError + unit) \<times> 'e log_manager" where
  "start cap can_create m =
     (if lstate m = Running \<or> lstate m = Draining then (Inl AlreadyRunning, m)
      else if lstate m = Failed then (Inl NotRunning, m)
      else if \<not> can_create then (Inl FileCreateError, m\<lparr>lstate := Failed\<rparr>)
      else (Inr (),
            m\<lparr>lstate := Running, capacity := cap, buffer := [],
              header := Some header_row, rows := [], file_open := True\<rparr>))"

text \<open>Modelled from the spec: the body of \<^verbatim>\<open>add_log_entry\<close>, as section 4.1 describes
  \<open>submit\<close>: \<open>NotRunning\<close> unless the state is \<open>Running\<close>, reject-and-count when the buffer is at
  capacity, enqueue otherwise.\<close>

definition submit :: "'e \<Rightarrow> 'e log_manager \<Rightarrow> (LogError + unit) \<times> 'e log_manager" where
  "submit entry m =
     (if lstate m \<noteq> Running then (Inl NotRunning, m)
      else if length (buffer m) \<ge> capacity m
        then (Inl BufferFull, m\<lparr>dropped := dropped m + 1\<rparr>)
      else (Inr (), m\<lparr>buffer := buffer m @ [entry]\<rparr>))"

text \<open>Modelled from the spec: what an append to the file can do (sections 4.3 and 7), the
  file system being outside the program. \<open>Written\<close>: the row is in the file. \<open>Faulted\<close>: a
  write fault, to be recorded while the writer goes on with the next entry. \<open>Fatal\<close>: a fault
  that escalates, being fatal (disk full) or the one that makes the occurrence repeated; the
  specification gives no number of faults that counts as repeated.\<close>

datatype write_outcome = Written | Faulted | Fatal

text \<open>Modelled from the spec: one step of the missing Writer Thread (section 4.3): dequeue
  the oldest entry and append its row. On a write fault the fault is counted, the row is
  lost and the session goes on; a fault that escalates also puts the Log Manager in state
  \<open>Failed\<close>, which stops the thread.\<close>

definition writer_step :: "write_outcome \<Rightarrow> 'e log_manager \<Rightarrow> 'e log_manager" where
  "writer_step outcome m =
     (if lstate m = Running \<or> lstate m = Draining then
        (case buffer m of
           [] \<Rightarrow> m
         | entry # rest \<Rightarrow>
             (case outcome of
                Written \<Rightarrow> m\<lparr>buffer := rest, rows := rows m @ [entry]\<rparr>
              | Faulted \<Rightarrow> m\<lparr>buffer := rest, faults := faults m + 1\<rparr>
              | Fatal \<Rightarrow> m\<lparr>lstate := Failed, buffer := rest, faults := faults m + 1\<rparr>))
      else m)"

text \<open>Modelled from the spec: the missing Writer Thread draining on the shutdown signal
  (sections 4.3 and 5): it goes on until the buffer is empty, the timeout has elapsed or an
  escalated fault has stopped it. \<open>outcomes\<close> are the outcomes of its write attempts, in
  order; attempts beyond the list succeed.\<close>

fun drain :: "nat \<Rightarrow> write_outcome list \<Rightarrow> 'e log_manager \<Rightarrow> 'e log_manager" where
  "drain 0 outcomes m = m"
| "drain (Suc t) outcomes m =
     (if buffer m = [] \<or> lstate m \<noteq> Draining then m
      else (case outcomes of
              [] \<Rightarrow> drain t [] (writer_step Written m)
            | outcome # later \<Rightarrow> drain t later (writer_step outcome m)))"

text \<open>Modelled from the spec: the body of \<^verbatim>\<open>join_log_manager_thread\<close>, as section 4.1
  describes \<open>shutdown\<close>: on success the file is flushed and closed and the state is
  \<open>Stopped\<close>; on timeout the writer is stopped, the file closed with what has been written,
  the state is \<open>Failed\<close> and the entries still queued are lost and counted. When an escalated
  fault has stopped the writer during the drain, the state is \<open>Failed\<close> already; the call
  then reports \<open>WriteFault\<close>. The buffer is destroyed at shutdown.\<close>

definition shutdown ::
  "nat \<Rightarrow> write_outcome list \<Rightarrow> 'e log_manager \<Rightarrow> (LogError + unit) \<times> 'e log_manager" where
  "shutdown timeout outcomes m =
     (if lstate m \<noteq> Running then (Inl NotRunning, m)
      else
        let d = drain timeout outcomes (m\<lparr>lstate := Draining\<rparr>) in
        if lstate d = Failed
          then (Inl WriteFault, d\<lparr>file_open := False, lost := length (buffer d), buffer := []\<rparr>)
        else if buffer d = [] then (Inr (), d\<lparr>lstate := Stopped, file_open := False\<rparr>)
        else (Inl (ShutdownTimeout (length (buffer d))),
              d\<lparr>lstate := Failed, file_open := False, lost := length (buffer d), buffer := []\<rparr>))"

text \<open>Modelled from the spec: the return value of the four missing functions (section 6
  and the \<^verbatim>\<open>@return\<close> comments of \<^verbatim>\<open>log_manager.h\<close>): success is 0, every error is -1.\<close>

fun status_code :: "LogError + unit \<Rightarrow> int" where
  "status_code (Inr u) = 0"
| "status_code (Inl err) = - 1"

text \<open>Modelled from the spec: the four functions that \<^verbatim>\<open>log_manager.h\<close> declares, missing
  from the sources, as the producer-facing API of section 6. \<^verbatim>\<open>print_entry\<close> is stateless and
  succeeds unless the console stream faults (\<open>console_ok\<close>).\<close>

definition start_log_manager :: "nat \<Rightarrow> bool \<Rightarrow> 'e log_manager \<Rightarrow> int \<times> 'e log_manager" where
  "start_log_manager cap can_create m =
     (case start cap can_create m of (res, m') \<Rightarrow> (status_code res, m'))"

definition add_log_entry :: "'e \<Rightarrow> 'e log_manager \<Rightarrow> int \<times> 'e log_manager" where
  "add_log_entry new_entry m = (case submit new_entry m of (res, m') \<Rightarrow> (status_code res, m'))"

definition print_entry :: "bool \<Rightarrow> 'e \<Rightarrow> int" where
  "print_entry console_ok entry = (if console_ok then 0 else - 1)"

definition join_log_manager_thread ::
  "nat \<Rightarrow> write_outcome list \<Rightarrow> 'e log_manager \<Rightarrow> int \<times> 'e log_manager" where
  "join_log_manager_thread timeout outcomes m =
     (case shutdown timeout outcomes m of (res, m') \<Rightarrow> (status_code res, m'))"

text \<open>Runs of a logger: the producer's submit calls interleaved with steps of the writer
  thread, each with the outcome of its append. \<open>run\<close> is the state after the run, \<open>submitted\<close>
  the entries of all submit calls, \<open>accepted\<close> those of the successful ones, \<open>rejected\<close> the
  number of calls refused with \<open>BufferFull\<close>, each in the order of the calls.\<close>

datatype 'e event = Submit 'e | Write write_outcome

fun step :: "'e event \<Rightarrow> 'e log_manager \<Rightarrow> 'e log_manager" where
  "step (Submit entry) m = snd (submit entry m)"
| "step (Write outcome) m = writer_step outcome m"

fun run :: "'e event list \<Rightarrow> 'e log_manager \<Rightarrow> 'e log_manager" where
  "run [] m = m"
| "run (ev # evs) m = run evs (step ev m)"


fun accepted :: "'e event list \<Rightarrow> 'e log_manager \<Rightarrow> 'e list" where
  "accepted [] m = []"
| "accepted (Submit entry # evs) m =
     (if fst (submit entry m) = Inr () then entry # accepted evs (step (Submit entry) m)
      else accepted evs (step (Submit entry) m))"
| "accepted (Write outcome # evs) m = accepted evs (step (Write outcome) m)"

fun rejected :: "'e event list \<Rightarrow> 'e log_manager \<Rightarrow> nat" where
  "rejected [] m = 0"
| "rejected (Submit entry # evs) m =
     (if fst (submit entry m) = Inl BufferFull then Suc (rejected evs (step (Submit entry) m))
      else rejected evs (step (Submit entry) m))"
| "rejected (Write outcome # evs) m = rejected evs (step (Write outcome) m)"





text \<open>A logger that has never been started, and the logger right after a successful
  \<open>start\<close> with capacity \<open>cap\<close>.\<close>

definition new_manager :: "'e log_manager" where
  "new_manager =
     \<lparr> lstate = Uninitialized, capacity = 0, buffer = [], header = None, rows = [],
       file_open = False, dropped = 0, faults = 0, lost = 0 \<rparr>"

definition started :: "nat \<Rightarrow> 'e log_manager" where
  "started cap = snd (start cap True new_manager)"

text \<open>An entry with a given loop index and every other field zero.\<close>

definition entry_no :: "64 word \<Rightarrow> log_entry" where
  "entry_no i =
     \<lparr> loop_index = i, last_step_us = 0, altitude = 0, roll = 0, pitch = 0, yaw = 0,
       u_X = 0, u_Y = 0, u_Z = 0, u_roll = 0, u_pitch = 0, u_yaw = 0,
       mot_1 = 0, mot_2 = 0, mot_3 = 0, mot_4 = 0, mot_5 = 0, mot_6 = 0, v_batt = 0 \<rparr>"

section \<open>JSON values as json-c holds them\<close>

text \<open>
  \<^verbatim>\<open>settings.c\<close> reads the settings through the json-c library. A \<^verbatim>\<open>json_object*\<close> is modelled
  by the tree it points to; the JSON value \<^verbatim>\<open>null\<close> is the \<^verbatim>\<open>NULL\<close> pointer in json-c. An
  object keeps its members in insertion order. Console output (\<^verbatim>\<open>printf\<close>, \<^verbatim>\<open>fprintf\<close>) is
  not modelled, and neither is the lifetime of heap memory.
\<close>

datatype json_type = json_type_null | json_type_boolean | json_type_double | json_type_int
  | json_type_object | json_type_array | json_type_string

datatype json_object =
    NULL
  | json_boolean bool
  | json_double real
  | json_int int
  | json_obj "(string \<times> json_object) list"
  | json_array "json_object list"
  | json_string string

fun json_object_get_type :: "json_object \<Rightarrow> json_type" where
  "json_object_get_type NULL = json_type_null"
| "json_object_get_type (json_boolean b) = json_type_boolean"
| "json_object_get_type (json_double d) = json_type_double"
| "json_object_get_type (json_int n) = json_type_int"
| "json_object_get_type (json_obj kvs) = json_type_object"
| "json_object_get_type (json_array xs) = json_type_array"
| "json_object_get_type (json_string s) = json_type_string"

definition json_object_is_type :: "json_object \<Rightarrow> json_type \<Rightarrow> bool" where
  "json_object_is_type jso type = (json_object_get_type jso = type)"

text \<open>\<^verbatim>\<open>json_object_object_get_ex(obj, key, &tmp)\<close>: \<open>None\<close> stands for the return value 0 (no
  such member, or \<open>obj\<close> is not an object), \<open>Some tmp\<close> for the return value 1.\<close>

fun json_object_object_get_ex :: "json_object \<Rightarrow> string \<Rightarrow> json_object option" where
  "json_object_object_get_ex (json_obj kvs) key = map_of kvs key"
| "json_object_object_get_ex _ key = None"

text \<open>The value getters. \<^verbatim>\<open>settings.c\<close> calls each of them on a value whose type it has just
  checked (the one exception, the controller gain, discards the result), so the conversions
  json-c applies to values of another type are not modelled. \<^verbatim>\<open>json_object_get_int\<close> returns
  an \<^verbatim>\<open>int32_t\<close>: json-c stores 64 bits and saturates.\<close>

fun json_object_get_boolean :: "json_object \<Rightarrow> int" where
  "json_object_get_boolean (json_boolean b) = (if b then 1 else 0)"
| "json_object_get_boolean _ = 0"

definition INT32_MIN :: int where "INT32_MIN = - (2 ^ 31)"
definition INT32_MAX :: int where "INT32_MAX = 2 ^ 31 - 1"

fun json_object_get_int :: "json_object \<Rightarrow> int" where
  "json_object_get_int (json_int n) =
     (if n \<le> INT32_MIN then INT32_MIN else if n \<ge> INT32_MAX then INT32_MAX else n)"
| "json_object_get_int _ = 0"

fun json_object_get_double :: "json_object \<Rightarrow> real" where
  "json_object_get_double (json_double d) = d"
| "json_object_get_double _ = 0"

text \<open>A C string ends at the first NUL character.\<close>

definition c_str :: "string \<Rightarrow> string" where
  "c_str s = takeWhile (\<lambda>c. c \<noteq> CHR 0x00) s"

fun json_object_get_string :: "json_object \<Rightarrow> string" where
  "json_object_get_string (json_string s) = c_str s"
| "json_object_get_string _ = []"

fun json_object_array_length :: "json_object \<Rightarrow> nat" where
  "json_object_array_length (json_array xs) = length xs"
| "json_object_array_length _ = 0"

fun array_elements :: "json_object \<Rightarrow> json_object list" where
  "array_elements (json_array xs) = xs"
| "array_elements _ = []"

text \<open>The constructors used by \<^verbatim>\<open>__load_default_settings\<close>.\<close>

definition json_object_new_object :: json_object where
  "json_object_new_object = json_obj []"

definition json_object_new_array :: json_object where
  "json_object_new_array = json_array []"

fun lh_insert :: "string \<Rightarrow> json_object \<Rightarrow> (string \<times> json_object) list \<Rightarrow> (string \<times> json_object) list" where
  "lh_insert key val [] = [(key, val)]"
| "lh_insert key val ((k, v) # kvs) =
     (if k = key then (k, val) # kvs else (k, v) # lh_insert key val kvs)"

fun json_object_object_add :: "json_object \<Rightarrow> string \<Rightarrow> json_object \<Rightarrow> json_object" where
  "json_object_object_add (json_obj kvs) key val = json_obj (lh_insert key val kvs)"
| "json_object_object_add jso key val = jso"

fun json_object_array_add :: "json_object \<Rightarrow> json_object \<Rightarrow> json_object" where
  "json_object_array_add (json_array xs) val = json_array (xs @ [val])"
| "json_object_array_add jso val = jso"

fun json_object_array_put_idx :: "json_object \<Rightarrow> nat \<Rightarrow> json_object \<Rightarrow> json_object" where
  "json_object_array_put_idx (json_array xs) idx val =
     (if idx < length xs then json_array (xs[idx := val])
      else json_array (xs @ replicate (idx - length xs) NULL @ [val]))"
| "json_object_array_put_idx jso idx val = jso"

section \<open>The settings struct and the globals of settings.c\<close>

text \<open>
  Modelled from the spec: the declarations of \<^verbatim>\<open>settings_t\<close> and of the enumerations
  (\<^verbatim>\<open>settings.h\<close>, \<^verbatim>\<open>rc_pilot_defs.h\<close>) are not among the sources. The specification names the
  logging flag and the loop frequency only; the record has the members that \<^verbatim>\<open>settings.c\<close>
  assigns, the enumerations the enumerators it names. The integer members hold what
  \<^verbatim>\<open>json_object_get_int\<close> and \<^verbatim>\<open>json_object_get_boolean\<close> return, both within 32 bits.
\<close>

datatype rotor_layout_t = LAYOUT_6DOF_ROTORBITS | LAYOUT_4X | LAYOUT_4PLUS | LAYOUT_6X | LAYOUT_8X

datatype thrust_map_t = MN1806_1400KV_4S | F20_2300KV_2S | RX2206_4S

datatype flight_mode_t = TEST_BENCH_4DOF | TEST_BENCH_6DOF | DIRECT_THROTTLE_4DOF
  | DIRECT_THROTTLE_6DOF | ALT_HOLD_4DOF | ALT_HOLD_6DOF

datatype dsm_kill_mode_t = DSM_KILL_DEDICATED_SWITCH | DSM_KILL_NEGATIVE_THROTTLE

record settings_t =
  num_rotors :: int
  layout :: rotor_layout_t
  thrust_map :: thrust_map_t
  v_nominal :: real
  feedback_hz :: int
  enable_logging :: int
  num_dsm_modes :: int
  flight_mode_1 :: flight_mode_t
  flight_mode_2 :: flight_mode_t
  flight_mode_3 :: flight_mode_t
  dsm_thr_ch :: int
  dsm_thr_pol :: int
  dsm_roll_ch :: int
  dsm_roll_pol :: int
  dsm_pitch_ch :: int
  dsm_pitch_pol :: int
  dsm_yaw_ch :: int
  dsm_yaw_pol :: int
  dsm_mode_ch :: int
  dsm_mode_pol :: int
  dsm_kill_mode :: dsm_kill_mode_t
  dsm_kill_ch :: int
  dsm_kill_pol :: int
  printf_arm :: int
  printf_altitude :: int
  printf_rpy :: int
  printf_sticks :: int
  printf_setpoint :: int
  printf_u :: int
  printf_motors :: int
  printf_mode :: int

text \<open>The settings file on disk: \<^verbatim>\<open>access(SETTINGS_FILE, F_OK)\<close> fails on \<open>Missing\<close>; on
  \<open>OnDisk j\<close> it succeeds and \<^verbatim>\<open>json_object_from_file\<close> returns \<open>j\<close> (\<open>NULL\<close> when the file
  cannot be read or parsed).\<close>

datatype settings_file = Missing | OnDisk json_object

text \<open>The file-scope variables of \<^verbatim>\<open>settings.c\<close>, together with the file on disk. The type
  \<open>'f\<close> is \<^verbatim>\<open>rc_filter_t\<close> of the robot control library.\<close>

record 'f state =
  jobj :: json_object
  settings :: settings_t
  roll_controller :: 'f
  pitch_controller :: 'f
  yaw_controller :: 'f
  altitude_controller :: 'f
  was_load_successful :: int
  disk :: settings_file

text \<open>The filter functions of the robot control library that \<^verbatim>\<open>__parse_controller\<close> calls.
  Each takes the filter behind the pointer and gives back its new content; the two
  constructors also give their return value (0 on success).\<close>

record 'f rc_math =
  rc_filter_free :: "'f \<Rightarrow> 'f"
  rc_filter_c2d_tustin :: "'f \<Rightarrow> real \<Rightarrow> real list \<Rightarrow> real list \<Rightarrow> real \<Rightarrow> int \<times> 'f"
  rc_filter_alloc :: "'f \<Rightarrow> real list \<Rightarrow> real list \<Rightarrow> real \<Rightarrow> int \<times> 'f"

text \<open>What one call of \<^verbatim>\<open>settings_load_from_file\<close> meets outside the program: the library,
  the return value of \<^verbatim>\<open>json_object_to_file_ext\<close>, and the values its caller reads when
  \<^verbatim>\<open>__parse_layout\<close>, \<^verbatim>\<open>__parse_thrust_map\<close> and \<^verbatim>\<open>__parse_kill_mode\<close> reach their closing brace:
  these three functions have no \<^verbatim>\<open>return\<close> statement on their successful paths, so the value
  is indeterminate.\<close>

record 'f env =
  rc :: "'f rc_math"
  json_object_to_file_ext :: int
  layout_ret :: int
  thrust_map_ret :: int
  kill_mode_ret :: int

section \<open>Control flow with early return\<close>

text \<open>A statement of a C function body maps the state to a new state and either executes
  \<^verbatim>\<open>return r;\<close> (\<open>Some r\<close>) or lets control flow on (\<open>None\<close>).\<close>

type_synonym 's stmt = "'s \<Rightarrow> int option \<times> 's"

text \<open>A call of a function whose body is the statement \<open>body\<close>: its value is the returned one,
  or the indeterminate \<open>u\<close> when the body ends without \<^verbatim>\<open>return\<close>.\<close>

definition call :: "int \<Rightarrow> 's stmt \<Rightarrow> 's \<Rightarrow> int \<times> 's" where
  "call u body s = (case body s of (Some r, s') \<Rightarrow> (r, s') | (None, s') \<Rightarrow> (u, s'))"

text \<open>\<^verbatim>\<open>if(f()==-1) return -1;\<close> and \<^verbatim>\<open>if(f()) return -1;\<close>\<close>

definition return_m1_if :: "(int \<Rightarrow> bool) \<Rightarrow> ('s \<Rightarrow> int \<times> 's) \<Rightarrow> 's stmt" where
  "return_m1_if failed f s = (case f s of (r, s') \<Rightarrow> if failed r then (Some (- 1), s') else (None, s'))"

text \<open>Statements in sequence, then the rest \<open>k\<close> of the body, which returns.\<close>

definition then_stmt :: "'s stmt \<Rightarrow> ('s \<Rightarrow> int \<times> 's) \<Rightarrow> 's \<Rightarrow> int \<times> 's" where
  "then_stmt st k s = (case st s of (Some r, s') \<Rightarrow> (r, s') | (None, s') \<Rightarrow> k s')"

definition run_stmts :: "'s stmt list \<Rightarrow> ('s \<Rightarrow> int \<times> 's) \<Rightarrow> 's \<Rightarrow> int \<times> 's" where
  "run_stmts sts k = foldr then_stmt sts k"

section \<open>The parsing macros and functions of settings.c\<close>

text \<open>The macros take the member name (and bounds \<^verbatim>\<open>min\<close>, \<^verbatim>\<open>max\<close>, here \<open>lo\<close>, \<open>hi\<close>); here they take the key (\<^verbatim>\<open>#name\<close>) and the assignment
  \<^verbatim>\<open>settings.name = v\<close> as a function.\<close>

definition PARSE_BOOL :: "string \<Rightarrow> (int \<Rightarrow> settings_t \<Rightarrow> settings_t) \<Rightarrow> 'f state stmt" where
  "PARSE_BOOL name assign g =
     (case json_object_object_get_ex (jobj g) name of
        None \<Rightarrow> (Some (- 1), g)
      | Some tmp \<Rightarrow>
          if \<not> json_object_is_type tmp json_type_boolean then (Some (- 1), g)
          else (None, g\<lparr>settings := assign (json_object_get_boolean tmp) (settings g)\<rparr>))"

definition PARSE_INT :: "string \<Rightarrow> (int \<Rightarrow> settings_t \<Rightarrow> settings_t) \<Rightarrow> 'f state stmt" where
  "PARSE_INT name assign g =
     (case json_object_object_get_ex (jobj g) name of
        None \<Rightarrow> (Some (- 1), g)
      | Some tmp \<Rightarrow>
          if \<not> json_object_is_type tmp json_type_int then (Some (- 1), g)
          else (None, g\<lparr>settings := assign (json_object_get_int tmp) (settings g)\<rparr>))"

definition PARSE_INT_MIN_MAX ::
  "string \<Rightarrow> (int \<Rightarrow> settings_t \<Rightarrow> settings_t) \<Rightarrow> int \<Rightarrow> int \<Rightarrow> 'f state stmt" where
  "PARSE_INT_MIN_MAX name assign lo hi g =
     (case json_object_object_get_ex (jobj g) name of
        None \<Rightarrow> (Some (- 1), g)
      | Some tmp \<Rightarrow>
          if \<not> json_object_is_type tmp json_type_int then (Some (- 1), g)
          else
            let v = json_object_get_int tmp;
                g' = g\<lparr>settings := assign v (settings g)\<rparr>
            in if v < lo \<or> v > hi then (Some (- 1), g') else (None, g'))"

definition PARSE_POLARITY :: "string \<Rightarrow> (int \<Rightarrow> settings_t \<Rightarrow> settings_t) \<Rightarrow> 'f state stmt" where
  "PARSE_POLARITY name assign g =
     (case json_object_object_get_ex (jobj g) name of
        None \<Rightarrow> (Some (- 1), g)
      | Some tmp \<Rightarrow>
          if \<not> json_object_is_type tmp json_type_int then (Some (- 1), g)
          else
            let v = json_object_get_int tmp;
                g' = g\<lparr>settings := assign v (settings g)\<rparr>
            in if v \<noteq> - 1 \<and> v \<noteq> 1 then (Some (- 1), g') else (None, g'))"

text \<open>This macro assigns \<^verbatim>\<open>settings.v_nominal\<close> whatever name it is given.\<close>

definition PARSE_DOUBLE_MIN_MAX :: "string \<Rightarrow> real \<Rightarrow> real \<Rightarrow> 'f state stmt" where
  "PARSE_DOUBLE_MIN_MAX name lo hi g =
     (case json_object_object_get_ex (jobj g) name of
        None \<Rightarrow> (Some (- 1), g)
      | Some tmp \<Rightarrow>
          if \<not> json_object_is_type tmp json_type_double then (Some (- 1), g)
          else
            let g' = g\<lparr>settings := (settings g)\<lparr>v_nominal := json_object_get_double tmp\<rparr>\<rparr>
            in if v_nominal (settings g') < lo \<or> v_nominal (settings g') > hi
               then (Some (- 1), g') else (None, g'))"

text \<open>\<^verbatim>\<open>__parse_layout\<close>, \<^verbatim>\<open>__parse_thrust_map\<close> and \<^verbatim>\<open>__parse_kill_mode\<close> (Isabelle names cannot
  start with an underscore). \<^verbatim>\<open>strcmp(a, b)==0\<close> is equality of C strings. The successful
  branches end without \<^verbatim>\<open>return\<close>.\<close>

definition parse_layout :: "'f state stmt" where
  "parse_layout g =
     (case json_object_object_get_ex (jobj g) ''layout'' of
        None \<Rightarrow> (Some (- 1), g)
      | Some tmp \<Rightarrow>
          if \<not> json_object_is_type tmp json_type_string then (Some (- 1), g)
          else
            let tmp_str = json_object_get_string tmp in
            if tmp_str = ''LAYOUT_6DOF_ROTORBITS''
              then (None, g\<lparr>settings := (settings g)\<lparr>num_rotors := 6, layout := LAYOUT_6DOF_ROTORBITS\<rparr>\<rparr>)
            else if tmp_str = ''LAYOUT_4X''
              then (None, g\<lparr>settings := (settings g)\<lparr>num_rotors := 4, layout := LAYOUT_4X\<rparr>\<rparr>)
            else if tmp_str = ''LAYOUT_4PLUS''
              then (None, g\<lparr>settings := (settings g)\<lparr>num_rotors := 4, layout := LAYOUT_4PLUS\<rparr>\<rparr>)
            else if tmp_str = ''LAYOUT_6X''
              then (None, g\<lparr>settings := (settings g)\<lparr>num_rotors := 6, layout := LAYOUT_6X\<rparr>\<rparr>)
            else if tmp_str = ''LAYOUT_8X''
              then (None, g\<lparr>settings := (settings g)\<lparr>num_rotors := 8, layout := LAYOUT_8X\<rparr>\<rparr>)
            else (Some (- 1), g))"

definition parse_thrust_map :: "'f state stmt" where
  "parse_thrust_map g =
     (case json_object_object_get_ex (jobj g) ''thrust_map'' of
        None \<Rightarrow> (Some (- 1), g)
      | Some tmp \<Rightarrow>
          if \<not> json_object_is_type tmp json_type_string then (Some (- 1), g)
          else
            let tmp_str = json_object_get_string tmp in
            if tmp_str = ''MN1806_1400KV_4S''
              then (None, g\<lparr>settings := (settings g)\<lparr>thrust_map := MN1806_1400KV_4S\<rparr>\<rparr>)
            else if tmp_str = ''F20_2300KV_2S''
              then (None, g\<lparr>settings := (settings g)\<lparr>thrust_map := F20_2300KV_2S\<rparr>\<rparr>)
            else if tmp_str = ''RX2206_4S''
              then (None, g\<lparr>settings := (settings g)\<lparr>thrust_map := RX2206_4S\<rparr>\<rparr>)
            else (Some (- 1), g))"

text \<open>Both accepted strings select \<^verbatim>\<open>DSM_KILL_DEDICATED_SWITCH\<close>, as in the source.\<close>

definition parse_kill_mode :: "'f state stmt" where
  "parse_kill_mode g =
     (case json_object_object_get_ex (jobj g) ''dsm_kill_mode'' of
        None \<Rightarrow> (Some (- 1), g)
      | Some tmp \<Rightarrow>
          if \<not> json_object_is_type tmp json_type_string then (Some (- 1), g)
          else
            let tmp_str = json_object_get_string tmp in
            if tmp_str = ''DSM_KILL_DEDICATED_SWITCH''
              then (None, g\<lparr>settings := (settings g)\<lparr>dsm_kill_mode := DSM_KILL_DEDICATED_SWITCH\<rparr>\<rparr>)
            else if tmp_str = ''DSM_KILL_NEGATIVE_THROTTLE''
              then (None, g\<lparr>settings := (settings g)\<lparr>dsm_kill_mode := DSM_KILL_DEDICATED_SWITCH\<rparr>\<rparr>)
            else (Some (- 1), g))"

text \<open>\<^verbatim>\<open>__parse_flight_mode(jobj_str, mode)\<close>: the second argument is the value behind \<^verbatim>\<open>mode\<close>,
  the result is the return value and the new value behind \<^verbatim>\<open>mode\<close>.\<close>

definition parse_flight_mode :: "json_object \<Rightarrow> flight_mode_t \<Rightarrow> int \<times> flight_mode_t" where
  "parse_flight_mode jobj_str mode =
     (if \<not> json_object_is_type jobj_str json_type_string then (- 1, mode)
      else
        let tmp_str = json_object_get_string jobj_str in
        if tmp_str = ''TEST_BENCH_4DOF'' then (0, TEST_BENCH_4DOF)
        else if tmp_str = ''TEST_BENCH_6DOF'' then (0, TEST_BENCH_6DOF)
        else if tmp_str = ''DIRECT_THROTTLE_4DOF'' then (0, DIRECT_THROTTLE_4DOF)
        else if tmp_str = ''DIRECT_THROTTLE_6DOF'' then (0, DIRECT_THROTTLE_6DOF)
        else if tmp_str = ''ALT_HOLD_4DOF'' then (0, ALT_HOLD_4DOF)
        else if tmp_str = ''ALT_HOLD_6DOF'' then (0, ALT_HOLD_6DOF)
        else (- 1, mode))"

text \<open>The two loops of \<^verbatim>\<open>__parse_controller\<close> that copy an array of doubles into a vector;
  \<open>None\<close> is the \<^verbatim>\<open>return -1\<close> at the first entry that is not a double.\<close>

fun read_doubles :: "json_object list \<Rightarrow> real list option" where
  "read_doubles [] = Some []"
| "read_doubles (tmp # rest) =
     (if \<not> json_object_is_type tmp json_type_double then None
      else (case read_doubles rest of
              None \<Rightarrow> None
            | Some d \<Rightarrow> Some (json_object_get_double tmp # d)))"

text \<open>\<^verbatim>\<open>__parse_controller(jobj_ctl, filter, feedback_hz)\<close>: the argument \<open>flt0\<close> is the filter
  behind the pointer, the result is the return value and the filter left there. The gain is
  looked up and its value never used. The only caller passes 50, 100 or 200 as the
  frequency.\<close>

definition parse_controller ::
  "'f rc_math \<Rightarrow> json_object \<Rightarrow> 'f \<Rightarrow> int \<Rightarrow> int \<times> 'f" where
  "parse_controller lib jobj_ctl flt0 hz =
     (let dt = 1 / real_of_int hz;
          flt = rc_filter_free lib flt0
      in
      case json_object_object_get_ex jobj_ctl ''gain'' of
        None \<Rightarrow> (- 1, flt)
      | Some gain \<Rightarrow>
      case json_object_object_get_ex jobj_ctl ''numerator'' of
        None \<Rightarrow> (- 1, flt)
      | Some num_array \<Rightarrow>
      if \<not> json_object_is_type num_array json_type_array then (- 1, flt)
      else if json_object_array_length num_array < 1 then (- 1, flt)
      else
      case read_doubles (array_elements num_array) of
        None \<Rightarrow> (- 1, flt)
      | Some num_vec \<Rightarrow>
      case json_object_object_get_ex jobj_ctl ''denominator'' of
        None \<Rightarrow> (- 1, flt)
      | Some den_array \<Rightarrow>
      if \<not> json_object_is_type den_array json_type_array then (- 1, flt)
      else if json_object_array_length den_array < 1 then (- 1, flt)
      else
      case read_doubles (array_elements den_array) of
        None \<Rightarrow> (- 1, flt)
      | Some den_vec \<Rightarrow>
      if json_object_array_length num_array > json_object_array_length den_array
        then (- 1, flt)
      else
      case json_object_object_get_ex jobj_ctl ''CT_or_DT'' of
        None \<Rightarrow> (- 1, flt)
      | Some tmp \<Rightarrow>
      if \<not> json_object_is_type tmp json_type_string then (- 1, flt)
      else
        let tmp_str = json_object_get_string tmp in
        if tmp_str = ''CT'' then
          (case json_object_object_get_ex jobj_ctl ''crossover_freq_rad_per_sec'' of
             None \<Rightarrow> (- 1, flt)
           | Some w \<Rightarrow>
               if \<not> json_object_is_type w json_type_double then (- 1, flt)
               else
                 (case rc_filter_c2d_tustin lib flt dt num_vec den_vec (json_object_get_double w) of
                    (r, flt') \<Rightarrow> if r \<noteq> 0 then (- 1, flt') else (0, flt')))
        else if tmp_str = ''DT'' then
          (case rc_filter_alloc lib flt num_vec den_vec dt of
             (r, flt') \<Rightarrow> if r \<noteq> 0 then (- 1, flt') else (0, flt'))
        else (- 1, flt))"

text \<open>\<^verbatim>\<open>__write_settings_to_disk\<close>: on success the file holds \<^verbatim>\<open>jobj\<close>.\<close>

definition write_settings_to_disk :: "'f env \<Rightarrow> 'f state \<Rightarrow> int \<times> 'f state" where
  "write_settings_to_disk e g =
     (let out = json_object_to_file_ext e in
      if out \<noteq> 0 then (- 1, g) else (0, g\<lparr>disk := OnDisk (jobj g)\<rparr>))"

section \<open>The default settings\<close>

text \<open>\<^verbatim>\<open>__load_default_settings\<close> makes a new object and adds the members one by one with
  \<^verbatim>\<open>json_object_object_add\<close>; \<open>object_of\<close> is that sequence of calls. The source builds the
  same coefficient array eight times and four controllers that differ in the crossover
  frequency only.\<close>

definition object_of :: "(string \<times> json_object) list \<Rightarrow> json_object" where
  "object_of members =
     foldl (\<lambda>obj (key, val). json_object_object_add obj key val) json_object_new_object members"

definition default_coefficients :: json_object where
  "default_coefficients =
     json_object_array_put_idx
       (json_object_array_put_idx
          (json_object_array_add json_object_new_array (json_double 0.1))
          1 (json_double 0.2))
       2 (json_double 0.3)"

definition default_controller :: "real \<Rightarrow> real \<Rightarrow> json_object" where
  "default_controller gain crossover =
     object_of
       [ (''gain'', json_double gain),
         (''CT_or_DT'', json_string ''CT''),
         (''crossover_freq_rad_per_sec'', json_double crossover),
         (''numerator'', default_coefficients),
         (''denominator'', default_coefficients) ]"

definition default_members :: "(string \<times> json_object) list" where
  "default_members =
       [ (''layout'', json_string ''LAYOUT_6DOF_ROTORBITS''),
         (''thrust_map'', json_string ''RX2206_4S''),
         (''orientation'', json_string ''ORIENTATION_X_FORWARD''),
         (''v_nominal'', json_double 7.4),
         (''feedback_hz'', json_int 100),
         (''enable_logging'', json_boolean False),
         (''num_dsm_modes'', json_int 3),
         (''flight_mode_1'', json_string ''TEST_BENCH_4DOF''),
         (''flight_mode_2'', json_string ''TEST_BENCH_6DOF''),
         (''flight_mode_3'', json_string ''DIRECT_THROTTLE_4DOF''),
         (''dsm_thr_ch'', json_int 1),
         (''dsm_thr_pol'', json_int 1),
         (''dsm_roll_ch'', json_int 2),
         (''dsm_roll_pol'', json_int 1),
         (''dsm_pitch_ch'', json_int 3),
         (''dsm_pitch_pol'', json_int 1),
         (''dsm_yaw_ch'', json_int 4),
         (''dsm_yaw_pol'', json_int 1),
         (''dsm_mode_ch'', json_int 5),
         (''dsm_mode_pol'', json_int 1),
         (''dsm_kill_mode'', json_string ''DSM_KILL_NEGATIVE_THROTTLE''),
         (''dsm_kill_ch'', json_int 6),
         (''dsm_kill_pol'', json_int 1),
         (''printf_arm'', json_boolean True),
         (''printf_altitude'', json_boolean False),
         (''printf_rpy'', json_boolean False),
         (''printf_sticks'', json_boolean False),
         (''printf_setpoint'', json_boolean True),
         (''printf_u'', json_boolean False),
         (''printf_motors'', json_boolean False),
         (''printf_mode'', json_boolean True),
         (''roll_controller'', default_controller 1 6.283),
         (''pitch_controller'', default_controller 1.0 6.283),
         (''yaw_controller'', default_controller 1.0 3.141),
         (''altitude_controller'', default_controller 1.0 0.6283) ]"

definition default_jobj :: json_object where
  "default_jobj = object_of default_members"

definition load_default_settings :: "'f state \<Rightarrow> int \<times> 'f state" where
  "load_default_settings g = (0, g\<lparr>jobj := default_jobj\<rparr>)"

section \<open>settings\_load\_from\_file and the getters\<close>

text \<open>The first statement of the body after the flag is cleared: the file is read, or the
  defaults are made and written. \<^verbatim>\<open>if(__write_settings_to_disk()!=0) -1;\<close> evaluates the
  expression \<^verbatim>\<open>-1\<close> and goes on.\<close>

definition read_settings :: "'f env \<Rightarrow> 'f state stmt" where
  "read_settings e g =
     (case disk g of
        Missing \<Rightarrow>
          (case load_default_settings g of
             (r0, g1) \<Rightarrow>
               (case write_settings_to_disk e g1 of
                  (r, g2) \<Rightarrow> if r \<noteq> 0 then (None, g2) else (None, g2)))
      | OnDisk j \<Rightarrow>
          let g1 = g\<lparr>jobj := j\<rparr> in
          if jobj g1 = NULL then (Some (- 1), g1) else (None, g1))"

definition parse_enable_logging :: "'f state stmt" where
  "parse_enable_logging g =
     (case json_object_object_get_ex (jobj g) ''enable_logging'' of
        None \<Rightarrow> (Some (- 1), g)
      | Some tmp \<Rightarrow>
          if \<not> json_object_is_type tmp json_type_boolean then (Some (- 1), g)
          else (None, g\<lparr>settings := (settings g)\<lparr>enable_logging := json_object_get_boolean tmp\<rparr>\<rparr>))"

text \<open>The three flight mode blocks and the four controller blocks of the body differ in the
  key and in the member or variable written.\<close>

definition flight_mode_block ::
  "string \<Rightarrow> (settings_t \<Rightarrow> flight_mode_t) \<Rightarrow> (flight_mode_t \<Rightarrow> settings_t \<Rightarrow> settings_t)
     \<Rightarrow> 'f state stmt" where
  "flight_mode_block name field assign g =
     (case json_object_object_get_ex (jobj g) name of
        None \<Rightarrow> (Some (- 1), g)
      | Some tmp \<Rightarrow>
          (case parse_flight_mode tmp (field (settings g)) of
             (r, mode) \<Rightarrow>
               let g' = g\<lparr>settings := assign mode (settings g)\<rparr>
               in if r \<noteq> 0 then (Some (- 1), g') else (None, g')))"

definition controller_block ::
  "'f env \<Rightarrow> string \<Rightarrow> ('f state \<Rightarrow> 'f) \<Rightarrow> ('f \<Rightarrow> 'f state \<Rightarrow> 'f state) \<Rightarrow> 'f state stmt" where
  "controller_block e name var assign g =
     (case json_object_object_get_ex (jobj g) name of
        None \<Rightarrow> (Some (- 1), g)
      | Some tmp \<Rightarrow>
          (case parse_controller (rc e) tmp (var g) (feedback_hz (settings g)) of
             (r, flt) \<Rightarrow>
               let g' = assign flt g
               in if r \<noteq> 0 then (Some (- 1), g') else (None, g')))"

definition check_feedback_hz :: "'f state stmt" where
  "check_feedback_hz g =
     (if feedback_hz (settings g) \<noteq> 50 \<and> feedback_hz (settings g) \<noteq> 100
         \<and> feedback_hz (settings g) \<noteq> 200
      then (Some (- 1), g) else (None, g))"

text \<open>The statements of the body, in the source's order, grouped as its comments group them.\<close>

definition stmts_physical :: "'f env \<Rightarrow> 'f state stmt list" where
  "stmts_physical e =
     [ return_m1_if (\<lambda>r. r = - 1) (call (layout_ret e) parse_layout),
       return_m1_if (\<lambda>r. r = - 1) (call (thrust_map_ret e) parse_thrust_map),
       PARSE_DOUBLE_MIN_MAX ''v_nominal'' 7.0 18.0 ]"

definition stmts_flight_modes :: "'f state stmt list" where
  "stmts_flight_modes =
     [ flight_mode_block ''flight_mode_1'' flight_mode_1 (\<lambda>v s. s\<lparr>flight_mode_1 := v\<rparr>),
       flight_mode_block ''flight_mode_2'' flight_mode_2 (\<lambda>v s. s\<lparr>flight_mode_2 := v\<rparr>),
       flight_mode_block ''flight_mode_3'' flight_mode_3 (\<lambda>v s. s\<lparr>flight_mode_3 := v\<rparr>) ]"

definition stmts_dsm :: "'f env \<Rightarrow> 'f state stmt list" where
  "stmts_dsm e =
     [ PARSE_INT_MIN_MAX ''num_dsm_modes'' (\<lambda>v s. s\<lparr>num_dsm_modes := v\<rparr>) 1 3,
       PARSE_INT_MIN_MAX ''dsm_thr_ch'' (\<lambda>v s. s\<lparr>dsm_thr_ch := v\<rparr>) 1 9,
       PARSE_POLARITY ''dsm_thr_pol'' (\<lambda>v s. s\<lparr>dsm_thr_pol := v\<rparr>),
       PARSE_INT_MIN_MAX ''dsm_roll_ch'' (\<lambda>v s. s\<lparr>dsm_roll_ch := v\<rparr>) 1 9,
       PARSE_POLARITY ''dsm_roll_pol'' (\<lambda>v s. s\<lparr>dsm_roll_pol := v\<rparr>),
       PARSE_INT_MIN_MAX ''dsm_pitch_ch'' (\<lambda>v s. s\<lparr>dsm_pitch_ch := v\<rparr>) 1 9,
       PARSE_POLARITY ''dsm_pitch_pol'' (\<lambda>v s. s\<lparr>dsm_pitch_pol := v\<rparr>),
       PARSE_INT_MIN_MAX ''dsm_yaw_ch'' (\<lambda>v s. s\<lparr>dsm_yaw_ch := v\<rparr>) 1 9,
       PARSE_POLARITY ''dsm_yaw_pol'' (\<lambda>v s. s\<lparr>dsm_yaw_pol := v\<rparr>),
       PARSE_INT_MIN_MAX ''dsm_mode_ch'' (\<lambda>v s. s\<lparr>dsm_mode_ch := v\<rparr>) 1 9,
       PARSE_POLARITY ''dsm_mode_pol'' (\<lambda>v s. s\<lparr>dsm_mode_pol := v\<rparr>),
       return_m1_if (\<lambda>r. r = - 1) (call (kill_mode_ret e) parse_kill_mode),
       PARSE_INT_MIN_MAX ''dsm_kill_ch'' (\<lambda>v s. s\<lparr>dsm_kill_ch := v\<rparr>) 1 9,
       PARSE_POLARITY ''dsm_kill_pol'' (\<lambda>v s. s\<lparr>dsm_kill_pol := v\<rparr>) ]"

definition stmts_feedback_hz :: "'f state stmt list" where
  "stmts_feedback_hz =
     [ PARSE_INT ''feedback_hz'' (\<lambda>v s. s\<lparr>feedback_hz := v\<rparr>),
       check_feedback_hz ]"

definition stmts_printf :: "'f state stmt list" where
  "stmts_printf =
     [ PARSE_BOOL ''printf_arm'' (\<lambda>v s. s\<lparr>printf_arm := v\<rparr>),
       PARSE_BOOL ''printf_altitude'' (\<lambda>v s. s\<lparr>printf_altitude := v\<rparr>),
       PARSE_BOOL ''printf_rpy'' (\<lambda>v s. s\<lparr>printf_rpy := v\<rparr>),
       PARSE_BOOL ''printf_sticks'' (\<lambda>v s. s\<lparr>printf_sticks := v\<rparr>),
       PARSE_BOOL ''printf_setpoint'' (\<lambda>v s. s\<lparr>printf_setpoint := v\<rparr>),
       PARSE_BOOL ''printf_u'' (\<lambda>v s. s\<lparr>printf_u := v\<rparr>),
       PARSE_BOOL ''printf_motors'' (\<lambda>v s. s\<lparr>printf_motors := v\<rparr>),
       PARSE_BOOL ''printf_mode'' (\<lambda>v s. s\<lparr>printf_mode := v\<rparr>) ]"

definition stmts_controllers :: "'f env \<Rightarrow> 'f state stmt list" where
  "stmts_controllers e =
     [ controller_block e ''roll_controller'' roll_controller (\<lambda>f g. g\<lparr>roll_controller := f\<rparr>),
       controller_block e ''pitch_controller'' pitch_controller (\<lambda>f g. g\<lparr>pitch_controller := f\<rparr>),
       controller_block e ''yaw_controller'' yaw_controller (\<lambda>f g. g\<lparr>yaw_controller := f\<rparr>),
       controller_block e ''altitude_controller'' altitude_controller
         (\<lambda>f g. g\<lparr>altitude_controller := f\<rparr>) ]"

text \<open>Everything below the comment \<^verbatim>\<open>// start parsing data\<close>.\<close>

definition stmts_parse :: "'f env \<Rightarrow> 'f state stmt list" where
  "stmts_parse e =
     stmts_physical e @ [parse_enable_logging] @ stmts_flight_modes @ stmts_dsm e
       @ stmts_feedback_hz @ stmts_printf @ stmts_controllers e"

definition load_body :: "'f env \<Rightarrow> 'f state stmt list" where
  "load_body e = read_settings e # stmts_parse e"

text \<open>\<^verbatim>\<open>settings_load_from_file\<close>: the flag is cleared, the statements run, and when none of
  them has returned, the flag is set and 0 returned.\<close>

definition settings_load_from_file :: "'f env \<Rightarrow> 'f state \<Rightarrow> int \<times> 'f state" where
  "settings_load_from_file e g =
     run_stmts (load_body e)
       (\<lambda>g'. (0, g'\<lparr>was_load_successful := 1\<rparr>))
       (g\<lparr>was_load_successful := 0\<rparr>)"

text \<open>The getters: the second argument is the object behind the caller's pointer, the result
  the return value and that object afterwards.\<close>

definition settings_get :: "'f state \<Rightarrow> settings_t \<Rightarrow> int \<times> settings_t" where
  "settings_get g out = (if was_load_successful g = 0 then (- 1, out) else (0, settings g))"

definition settings_get_roll_controller :: "'f state \<Rightarrow> 'f \<Rightarrow> int \<times> 'f" where
  "settings_get_roll_controller g ctrl =
     (if was_load_successful g = 0 then (- 1, ctrl) else (0, roll_controller g))"

definition settings_get_pitch_controller :: "'f state \<Rightarrow> 'f \<Rightarrow> int \<times> 'f" where
  "settings_get_pitch_controller g ctrl =
     (if was_load_successful g = 0 then (- 1, ctrl) else (0, pitch_controller g))"

definition settings_get_yaw_controller :: "'f state \<Rightarrow> 'f \<Rightarrow> int \<times> 'f" where
  "settings_get_yaw_controller g ctrl =
     (if was_load_successful g = 0 then (- 1, ctrl) else (0, yaw_controller g))"

definition settings_get_altitude_controller :: "'f state \<Rightarrow> 'f \<Rightarrow> int \<times> 'f" where
  "settings_get_altitude_controller g ctrl =
     (if was_load_successful g = 0 then (- 1, ctrl) else (0, altitude_controller g))"

text \<open>A sequence of calls of \<^verbatim>\<open>settings_load_from_file\<close>, each in its own environment: the
  return values, in order, and the final state.\<close>

fun loads :: "'f env list \<Rightarrow> 'f state \<Rightarrow> int list \<times> 'f state" where
  "loads [] g = ([], g)"
| "loads (e # es) g =
     (case settings_load_from_file e g of
        (r, g') \<Rightarrow> (case loads es g' of (rs, g'') \<Rightarrow> (r # rs, g'')))"

section \<open>Notions used to state and prove the properties\<close>

text \<open>The content the load parses: the file's, or the defaults when the file is missing.\<close>

definition source :: "'f state \<Rightarrow> json_object" where
  "source g = (case disk g of Missing \<Rightarrow> default_jobj | OnDisk j \<Rightarrow> j)"

text \<open>The state in which control leaves a list of statements at its end, if none returns.\<close>

fun flows :: "'s stmt list \<Rightarrow> 's \<Rightarrow> 's option" where
  "flows [] s = Some s"
| "flows (st # sts) s = (case st s of (None, s') \<Rightarrow> flows sts s' | (Some r, s') \<Rightarrow> None)"

text \<open>A statement whose only return value is -1, and one that leaves an observation \<open>f\<close>
  of the state as it was.\<close>

definition returns_only_m1 :: "'s stmt \<Rightarrow> bool" where
  "returns_only_m1 st = (\<forall>s r. fst (st s) = Some r \<longrightarrow> r = - 1)"

definition frame :: "('s \<Rightarrow> 'a) \<Rightarrow> 's stmt \<Rightarrow> bool" where
  "frame f st = (\<forall>s. f (snd (st s)) = f s)"

text \<open>A statement that neither reads nor writes the file on disk.\<close>

definition ignores_disk :: "'f state stmt \<Rightarrow> bool" where
  "ignores_disk st = (\<forall>s d. st (s\<lparr>disk := d\<rparr>) = (fst (st s), (snd (st s))\<lparr>disk := d\<rparr>))"

text \<open>Control reaches the \<^verbatim>\<open>enable_logging\<close> block: the file was read and the layout, the thrust
  map and the nominal voltage were accepted.\<close>

definition reaches_enable_logging :: "'f env \<Rightarrow> 'f state \<Rightarrow> bool" where
  "reaches_enable_logging e g =
     (flows (read_settings e # stmts_physical e) (g\<lparr>was_load_successful := 0\<rparr>) \<noteq> None)"

section \<open>Example inputs\<close>

text \<open>A stand-in for the filter library whose constructors always succeed, an environment
  built on it in which \<^verbatim>\<open>json_object_to_file_ext\<close> returns \<open>w\<close>, and the state of a program
  that has not loaded any settings yet, beside a settings file \<open>d\<close>.\<close>

type_synonym example_filter = "(real list \<times> real list \<times> real) option"

definition example_rc :: "example_filter rc_math" where
  "example_rc =
     \<lparr> rc_filter_free = (\<lambda>f. None),
       rc_filter_c2d_tustin = (\<lambda>f dt num den w. (0, Some (num, den, dt))),
       rc_filter_alloc = (\<lambda>f num den dt. (0, Some (num, den, dt))) \<rparr>"

definition example_env :: "int \<Rightarrow> example_filter env" where
  "example_env w =
     \<lparr> rc = example_rc, json_object_to_file_ext = w,
       layout_ret = 0, thrust_map_ret = 0, kill_mode_ret = 0 \<rparr>"

definition settings0 :: settings_t where
  "settings0 =
     \<lparr> num_rotors = 0, layout = LAYOUT_6DOF_ROTORBITS, thrust_map = MN1806_1400KV_4S,
       v_nominal = 0, feedback_hz = 0, enable_logging = 0, num_dsm_modes = 0,
       flight_mode_1 = TEST_BENCH_4DOF, flight_mode_2 = TEST_BENCH_4DOF,
       flight_mode_3 = TEST_BENCH_4DOF,
       dsm_thr_ch = 0, dsm_thr_pol = 0, dsm_roll_ch = 0, dsm_roll_pol = 0,
       dsm_pitch_ch = 0, dsm_pitch_pol = 0, dsm_yaw_ch = 0, dsm_yaw_pol = 0,
       dsm_mode_ch = 0, dsm_mode_pol = 0, dsm_kill_mode = DSM_KILL_DEDICATED_SWITCH,
       dsm_kill_ch = 0, dsm_kill_pol = 0,
       printf_arm = 0, printf_altitude = 0, printf_rpy = 0, printf_sticks = 0,
       printf_setpoint = 0, printf_u = 0, printf_motors = 0, printf_mode = 0 \<rparr>"

definition state0 :: "settings_file \<Rightarrow> example_filter state" where
  "state0 d =
     \<lparr> jobj = NULL, settings = settings0,
       roll_controller = None, pitch_controller = None, yaw_controller = None,
       altitude_controller = None, was_load_successful = 0, disk = d \<rparr>"

text \<open>Settings files: the defaults with logging switched on; with a layout that does not
  exist on top of that; with a loop frequency of 60 Hz; and without the logging switch.\<close>

definition file_logging_on :: json_object where
  "file_logging_on = json_object_object_add default_jobj ''enable_logging'' (json_boolean True)"

definition file_bad_layout :: json_object where
  "file_bad_layout = json_object_object_add file_logging_on ''layout'' (json_string ''LAYOUT_5X'')"

definition file_60_hz :: json_object where
  "file_60_hz = json_object_object_add default_jobj ''feedback_hz'' (json_int 60)"

definition file_no_logging_key :: json_object where
  "file_no_logging_key = object_of (filter (\<lambda>m. fst m \<noteq> ''enable_logging'') default_members)"

text \<open>The state of the program after it has loaded the defaults for want of a settings
  file, and that state once a settings file with a layout that does not exist has been put
  on disk.\<close>

definition state_loaded :: "example_filter state" where
  "state_loaded = snd (settings_load_from_file (example_env 0) (state0 Missing))"

definition state_file_edited :: "example_filter state" where
  "state_file_edited = state_loaded\<lparr>disk := OnDisk file_bad_layout\<rparr>"

section \<open>Theorems\<close>

subsection \<open>The log entry schema\<close>

text \<open>
  C1. The struct \<^verbatim>\<open>log_entry_t\<close>, obtained by expanding the one table \<^verbatim>\<open>LOG_TABLE\<close> with the
  member-declaring macro, has exactly the 19 members loop\_index, last\_step\_us, altitude, roll,
  pitch, yaw, u\_X, u\_Y, u\_Z, u\_roll, u\_pitch, u\_yaw, mot\_1 .. mot\_6, v\_batt in this order;
  the first two are 64-bit unsigned integers and the other seventeen 64-bit floating-point
  values.
\<close>

theorem log_entry_t_fields:
  "map snd log_entry_t =
     [''loop_index'', ''last_step_us'', ''altitude'', ''roll'', ''pitch'', ''yaw'',
      ''u_X'', ''u_Y'', ''u_Z'', ''u_roll'', ''u_pitch'', ''u_yaw'',
      ''mot_1'', ''mot_2'', ''mot_3'', ''mot_4'', ''mot_5'', ''mot_6'', ''v_batt'']
   \<and> length log_entry_t = 19
   \<and> map (\<lambda>m. (kind_of (fst m), bits (fst m))) log_entry_t =
       replicate 2 (unsigned_integer, 64) @ replicate 17 (floating_point, 64)
   \<and> log_entry_t = map (\<lambda>(type, fmt, name). (type, name)) LOG_TABLE"
  by (simp add: log_entry_t_def LOG_TABLE_def numeral_eq_Suc)

subsection \<open>The log manager: buffer, writer and shutdown\<close>

lemma started_eq:
  "started cap = \<lparr> lstate = Running, capacity = cap, buffer = [], header = Some header_row,
     rows = [], file_open = True, dropped = 0, faults = 0, lost = 0 \<rparr>"
  by (simp add: started_def start_def new_manager_def)



lemma subseq_skip_one: "subseq (xs @ ys) (xs @ y # ys)"
  by (intro list_emb_append_mono) auto

lemma writer_step_subseq:
  "subseq (rows (writer_step outcome m) @ buffer (writer_step outcome m)) (rows m @ buffer m)"
  by (cases outcome) (auto simp: writer_step_def subseq_skip_one split: list.splits)

lemma step_subseq:
  "subseq (rows (step ev m) @ buffer (step ev m)) (rows m @ buffer m @ accepted [ev] m)"
proof (cases ev)
  case (Submit entry)
  then show ?thesis by (auto simp: submit_def)
next
  case (Write outcome)
  then show ?thesis using writer_step_subseq [of outcome m] by simp
qed

lemma step_suffix: "suffix (buffer (step ev m)) (buffer m @ accepted [ev] m)"
proof (cases ev)
  case (Submit entry)
  then show ?thesis by (auto simp: submit_def)
next
  case (Write outcome)
  then show ?thesis
    by (cases outcome) (auto simp: writer_step_def suffix_def split: list.splits)
qed


lemma accepted_Cons:
  "accepted (ev # evs) m = accepted [ev] m @ accepted evs (step ev m)"
  by (cases ev) simp_all


lemma run_subseq:
  "subseq (rows (run evs m) @ buffer (run evs m)) (rows m @ buffer m @ accepted evs m)"
proof (induction evs arbitrary: m)
  case Nil
  show ?case by simp
next
  case (Cons ev evs)
  have "subseq (rows (run evs (step ev m)) @ buffer (run evs (step ev m)))
          ((rows (step ev m) @ buffer (step ev m)) @ accepted evs (step ev m))"
    using Cons.IH [of "step ev m"] by simp
  also have "subseq \<dots> ((rows m @ buffer m @ accepted [ev] m) @ accepted evs (step ev m))"
    by (intro list_emb_append_mono step_subseq) simp
  finally show ?case by (simp add: accepted_Cons [of ev evs])
qed

lemma run_suffix: "suffix (buffer (run evs m)) (buffer m @ accepted evs m)"
proof (induction evs arbitrary: m)
  case Nil
  show ?case by simp
next
  case (Cons ev evs)
  obtain xs where xs: "buffer (step ev m) @ accepted evs (step ev m) = xs @ buffer (run evs (step ev m))"
    using Cons.IH [of "step ev m"] by (auto simp: suffix_def)
  obtain ys where ys: "buffer m @ accepted [ev] m = ys @ buffer (step ev m)"
    using step_suffix [of ev m] by (auto simp: suffix_def)
  have "buffer m @ accepted (ev # evs) m = (buffer m @ accepted [ev] m) @ accepted evs (step ev m)"
    by (simp add: accepted_Cons [of ev evs])
  also have "\<dots> = ys @ xs @ buffer (run evs (step ev m))"
    by (simp add: ys xs)
  finally show ?case by (simp add: suffix_def)
qed




lemma run_dropped: "dropped (run evs m) = dropped m + rejected evs m"
proof (induction evs m rule: rejected.induct)
  case (1 m)
  show ?case by simp
next
  case (2 entry evs m)
  then show ?case by (auto simp: submit_def)
next
  case (3 outcome evs m)
  have "dropped (writer_step outcome m) = dropped m"
    by (cases outcome) (auto simp: writer_step_def split: list.splits)
  with 3 show ?case by simp
qed







lemma drain_frame:
  "dropped (drain t outcomes m) = dropped m \<and> capacity (drain t outcomes m) = capacity m
   \<and> header (drain t outcomes m) = header m \<and> file_open (drain t outcomes m) = file_open m
   \<and> lost (drain t outcomes m) = lost m"
proof (induction t outcomes m rule: drain.induct)
  case (1 outcomes m)
  show ?case by simp
next
  case (2 t outcomes m)
  have w: "dropped (writer_step outcome m) = dropped m
      \<and> capacity (writer_step outcome m) = capacity m
      \<and> header (writer_step outcome m) = header m
      \<and> file_open (writer_step outcome m) = file_open m
      \<and> lost (writer_step outcome m) = lost m" for outcome
    by (cases outcome) (auto simp: writer_step_def split: list.splits)
  show ?case
  proof (cases "buffer m = [] \<or> lstate m \<noteq> Draining")
    case True
    then show ?thesis by auto
  next
    case False
    then show ?thesis using 2 w by (cases outcomes) auto
  qed
qed







lemma join_code:
  "fst (join_log_manager_thread timeout outcomes m) = status_code (fst (shutdown timeout outcomes m))"
  by (simp add: join_log_manager_thread_def split: prod.splits)





text \<open>
  C4. A submit call made while the logger runs with its buffer at capacity fails with
  \<open>BufferFull\<close> (\<^verbatim>\<open>add_log_entry\<close> returns -1) in that very call, with no writer step awaited; the
  buffer and the file are as before, and the dropped-entry counter is one higher. Over any
  run, whatever the outcomes of the writer's appends, the counter grows by exactly the number
  of calls refused with \<open>BufferFull\<close>; the buffer is a suffix of the earlier buffer followed
  by the accepted entries, so that no rejected entry is in it and no buffered entry has been
  overwritten, duplicated or reordered; and the rows followed by the buffer are a
  subsequence of the earlier rows, the earlier buffer and the accepted entries.
\<close>

theorem full_buffer_rejects:
  "(lstate m = Running \<and> capacity m \<le> length (buffer m) \<longrightarrow>
      submit entry m = (Inl BufferFull, m\<lparr>dropped := dropped m + 1\<rparr>)
      \<and> fst (add_log_entry entry m) = - 1
      \<and> buffer (snd (add_log_entry entry m)) = buffer m
      \<and> rows (snd (add_log_entry entry m)) = rows m
      \<and> dropped (snd (add_log_entry entry m)) = dropped m + 1)
   \<and> dropped (run evs m) = dropped m + rejected evs m
   \<and> suffix (buffer (run evs m)) (buffer m @ accepted evs m)
   \<and> subseq (rows (run evs m) @ buffer (run evs m)) (rows m @ buffer m @ accepted evs m)"
  using run_dropped [of evs m] run_suffix [of evs m] run_subseq [of evs m]
  by (simp add: submit_def add_log_entry_def)

text \<open>
  A buffer of capacity 1 holding one entry: the next submit call is refused. In the run, the
  second and third submit calls are refused, the fourth, made after the writer has taken the
  first entry (its append meeting a write fault), is accepted.
\<close>

theorem full_buffer_rejects_witness:
  "lstate ((started 1)\<lparr>buffer := [entry_no 1]\<rparr>) = Running
   \<and> capacity ((started 1)\<lparr>buffer := [entry_no 1]\<rparr>)
        \<le> length (buffer ((started 1)\<lparr>buffer := [entry_no 1]\<rparr>))
   \<and> run [Submit (entry_no 1)] (started 1) = (started 1)\<lparr>buffer := [entry_no 1]\<rparr>
   \<and> fst (submit (entry_no 2) ((started 1)\<lparr>buffer := [entry_no 1]\<rparr>)) = Inl BufferFull
   \<and> fst (add_log_entry (entry_no 2) ((started 1)\<lparr>buffer := [entry_no 1]\<rparr>)) = - 1
   \<and> buffer (snd (add_log_entry (entry_no 2) ((started 1)\<lparr>buffer := [entry_no 1]\<rparr>)))
        = [entry_no 1]
   \<and> dropped (snd (add_log_entry (entry_no 2) ((started 1)\<lparr>buffer := [entry_no 1]\<rparr>))) = 1
   \<and> rejected [Submit (entry_no 1), Submit (entry_no 2), Submit (entry_no 3), Write Faulted,
         Submit (entry_no 4)] (started 1) = 2
   \<and> dropped (run [Submit (entry_no 1), Submit (entry_no 2), Submit (entry_no 3), Write Faulted,
         Submit (entry_no 4)] (started 1)) = 2"
proof -
  have b: "run [Submit (entry_no 1)] (started 1) = (started 1)\<lparr>buffer := [entry_no 1]\<rparr>"
    by (simp add: started_eq submit_def)
  have r: "rejected [Submit (entry_no 1), Submit (entry_no 2), Submit (entry_no 3), Write Faulted,
         Submit (entry_no 4)] (started 1) = 2"
    by (simp add: started_eq submit_def writer_step_def)
  have d: "dropped (started 1) = 0" by (simp add: started_eq)
  have s: "lstate ((started 1)\<lparr>buffer := [entry_no 1]\<rparr>) = Running"
    "capacity ((started 1)\<lparr>buffer := [entry_no 1]\<rparr>)
        \<le> length (buffer ((started 1)\<lparr>buffer := [entry_no 1]\<rparr>))"
    "dropped ((started 1)\<lparr>buffer := [entry_no 1]\<rparr>) = 0"
    by (simp_all add: started_eq)
  from full_buffer_rejects [of "(started 1)\<lparr>buffer := [entry_no 1]\<rparr>" "entry_no 2" "[]"] s
  have one: "fst (submit (entry_no 2) ((started 1)\<lparr>buffer := [entry_no 1]\<rparr>)) = Inl BufferFull"
    "fst (add_log_entry (entry_no 2) ((started 1)\<lparr>buffer := [entry_no 1]\<rparr>)) = - 1"
    "buffer (snd (add_log_entry (entry_no 2) ((started 1)\<lparr>buffer := [entry_no 1]\<rparr>)))
        = [entry_no 1]"
    "dropped (snd (add_log_entry (entry_no 2) ((started 1)\<lparr>buffer := [entry_no 1]\<rparr>))) = 1"
    by simp_all
  from full_buffer_rejects [of "started 1" "entry_no 2" "[Submit (entry_no 1),
         Submit (entry_no 2), Submit (entry_no 3), Write Faulted, Submit (entry_no 4)]"]
  have two: "dropped (run [Submit (entry_no 1), Submit (entry_no 2), Submit (entry_no 3),
         Write Faulted, Submit (entry_no 4)] (started 1)) = 2"
    unfolding r d by simp
  from s(1,2) b one r two show ?thesis by blast
qed






text \<open>
  C6. Each of \<^verbatim>\<open>start_log_manager\<close>, \<^verbatim>\<open>add_log_entry\<close>, \<^verbatim>\<open>print_entry\<close> and
  \<^verbatim>\<open>join_log_manager_thread\<close> returns 0 or -1 and nothing else, and returns 0 exactly when the
  operation succeeds.
\<close>

theorem api_status_codes:
  "(fst (start_log_manager cap can_create m) = 0 \<or> fst (start_log_manager cap can_create m) = - 1)
   \<and> (fst (start_log_manager cap can_create m) = 0) = (fst (start cap can_create m) = Inr ())
   \<and> (fst (add_log_entry entry m) = 0 \<or> fst (add_log_entry entry m) = - 1)
   \<and> (fst (add_log_entry entry m) = 0) = (fst (submit entry m) = Inr ())
   \<and> (print_entry console_ok entry = 0 \<or> print_entry console_ok entry = - 1)
   \<and> (print_entry console_ok entry = 0) = console_ok
   \<and> (fst (join_log_manager_thread timeout outcomes m) = 0
        \<or> fst (join_log_manager_thread timeout outcomes m) = - 1)
   \<and> (fst (join_log_manager_thread timeout outcomes m) = 0)
        = (fst (shutdown timeout outcomes m) = Inr ())"
proof -
  have code: "(status_code res = 0 \<or> status_code res = - 1) \<and> (status_code res = 0) = (res = Inr ())"
    for res :: "LogError + unit"
    by (cases res) simp_all
  have api: "fst (start_log_manager cap can_create m) = status_code (fst (start cap can_create m))"
    "fst (add_log_entry entry m) = status_code (fst (submit entry m))"
    by (simp_all add: start_log_manager_def add_log_entry_def split: prod.splits)
  show ?thesis
    using code [of "fst (start cap can_create m)"] code [of "fst (submit entry m)"]
      code [of "fst (shutdown timeout outcomes m)"]
    by (auto simp: api join_code print_entry_def)
qed

subsection \<open>Statement lists with early return\<close>

lemma then_stmt_fst_snd:
  "then_stmt st k s = (case fst (st s) of Some r \<Rightarrow> (r, snd (st s)) | None \<Rightarrow> k (snd (st s)))"
  by (cases "st s") (simp add: then_stmt_def split: option.splits)

lemma run_stmts_Nil: "run_stmts [] k s = k s"
  by (simp add: run_stmts_def)

lemma run_stmts_Cons: "run_stmts (st # sts) k s = then_stmt st (run_stmts sts k) s"
  by (simp add: run_stmts_def)

lemma run_stmts_append: "run_stmts (xs @ ys) k = run_stmts xs (run_stmts ys k)"
  by (simp add: run_stmts_def)

lemma run_stmts_flows:
  "flows xs s = Some s1 \<Longrightarrow> run_stmts xs k s = k s1"
proof (induction xs arbitrary: s)
  case Nil
  then show ?case by (simp add: run_stmts_Nil)
next
  case (Cons st xs)
  then show ?case
    by (auto simp: run_stmts_Cons then_stmt_def split: prod.splits option.splits)
qed

lemma run_stmts_inv:
  assumes step: "\<And>st s. st \<in> set sts \<Longrightarrow> I s \<Longrightarrow> I (snd (st s))"
    and ret: "\<And>st s r. st \<in> set sts \<Longrightarrow> I s \<Longrightarrow> fst (st s) = Some r \<Longrightarrow> Q r (snd (st s))"
    and rest: "\<And>s. I s \<Longrightarrow> Q (fst (k s)) (snd (k s))"
    and init: "I s"
  shows "Q (fst (run_stmts sts k s)) (snd (run_stmts sts k s))"
  using step ret init
proof (induction sts arbitrary: s)
  case Nil
  then show ?case by (simp add: run_stmts_Nil rest)
next
  case (Cons st sts)
  show ?case
  proof (cases "fst (st s)")
    case None
    then have eq: "run_stmts (st # sts) k s = run_stmts sts k (snd (st s))"
      by (simp add: run_stmts_Cons then_stmt_fst_snd)
    have "I (snd (st s))" using Cons.prems(1)[of st s] Cons.prems(3) by simp
    then have "Q (fst (run_stmts sts k (snd (st s)))) (snd (run_stmts sts k (snd (st s))))"
      using Cons.IH[of "snd (st s)"] Cons.prems(1,2) by simp
    then show ?thesis by (simp add: eq)
  next
    case (Some r)
    then have eq: "run_stmts (st # sts) k s = (r, snd (st s))"
      by (simp add: run_stmts_Cons then_stmt_fst_snd)
    show ?thesis using Cons.prems(2)[of st s r] Cons.prems(3) Some by (simp add: eq)
  qed
qed

subsection \<open>What the statements of the load return and leave unchanged\<close>

lemma PARSE_BOOL_only_m1: "returns_only_m1 (PARSE_BOOL name assign)"
  by (simp add: returns_only_m1_def PARSE_BOOL_def split: option.splits)

lemma PARSE_INT_only_m1: "returns_only_m1 (PARSE_INT name assign)"
  by (simp add: returns_only_m1_def PARSE_INT_def split: option.splits)

lemma PARSE_INT_MIN_MAX_only_m1: "returns_only_m1 (PARSE_INT_MIN_MAX name assign lo hi)"
  by (simp add: returns_only_m1_def PARSE_INT_MIN_MAX_def Let_def split: option.splits)

lemma PARSE_POLARITY_only_m1: "returns_only_m1 (PARSE_POLARITY name assign)"
  by (simp add: returns_only_m1_def PARSE_POLARITY_def Let_def split: option.splits)

lemma PARSE_DOUBLE_MIN_MAX_only_m1: "returns_only_m1 (PARSE_DOUBLE_MIN_MAX name lo hi)"
  by (simp add: returns_only_m1_def PARSE_DOUBLE_MIN_MAX_def Let_def split: option.splits)

lemma return_m1_if_only_m1: "returns_only_m1 (return_m1_if failed f)"
  by (simp add: returns_only_m1_def return_m1_if_def split: prod.splits)

lemma parse_enable_logging_only_m1: "returns_only_m1 parse_enable_logging"
  by (simp add: returns_only_m1_def parse_enable_logging_def split: option.splits)

lemma flight_mode_block_only_m1: "returns_only_m1 (flight_mode_block name field assign)"
  by (simp add: returns_only_m1_def flight_mode_block_def Let_def split: option.splits prod.splits)

lemma controller_block_only_m1: "returns_only_m1 (controller_block e name var assign)"
  by (simp add: returns_only_m1_def controller_block_def Let_def split: option.splits prod.splits)

lemma check_feedback_hz_only_m1: "returns_only_m1 check_feedback_hz"
  by (simp add: returns_only_m1_def check_feedback_hz_def)

lemma read_settings_only_m1: "returns_only_m1 (read_settings e)"
  by (simp add: returns_only_m1_def read_settings_def Let_def split: settings_file.splits prod.splits)

lemmas only_m1 = PARSE_BOOL_only_m1 PARSE_INT_only_m1 PARSE_INT_MIN_MAX_only_m1
  PARSE_POLARITY_only_m1 PARSE_DOUBLE_MIN_MAX_only_m1 return_m1_if_only_m1
  parse_enable_logging_only_m1 flight_mode_block_only_m1 controller_block_only_m1
  check_feedback_hz_only_m1 read_settings_only_m1

lemma load_body_only_m1: "st \<in> set (load_body e) \<Longrightarrow> returns_only_m1 st"
  by (auto simp: load_body_def stmts_parse_def stmts_physical_def stmts_flight_modes_def stmts_dsm_def
      stmts_feedback_hz_def stmts_printf_def stmts_controllers_def only_m1)

lemma PARSE_BOOL_frame:
  "(\<And>v s. f (s\<lparr>settings := assign v (settings s)\<rparr>) = f s) \<Longrightarrow> frame f (PARSE_BOOL name assign)"
  by (simp add: frame_def PARSE_BOOL_def split: option.splits)

lemma PARSE_INT_frame:
  "(\<And>v s. f (s\<lparr>settings := assign v (settings s)\<rparr>) = f s) \<Longrightarrow> frame f (PARSE_INT name assign)"
  by (simp add: frame_def PARSE_INT_def split: option.splits)

lemma PARSE_INT_MIN_MAX_frame:
  "(\<And>v s. f (s\<lparr>settings := assign v (settings s)\<rparr>) = f s) \<Longrightarrow>
     frame f (PARSE_INT_MIN_MAX name assign lo hi)"
  by (simp add: frame_def PARSE_INT_MIN_MAX_def Let_def split: option.splits)

lemma PARSE_POLARITY_frame:
  "(\<And>v s. f (s\<lparr>settings := assign v (settings s)\<rparr>) = f s) \<Longrightarrow>
     frame f (PARSE_POLARITY name assign)"
  by (simp add: frame_def PARSE_POLARITY_def Let_def split: option.splits)

lemma PARSE_DOUBLE_MIN_MAX_frame:
  "(\<And>v s. f (s\<lparr>settings := (settings s)\<lparr>v_nominal := v\<rparr>\<rparr>) = f s) \<Longrightarrow>
     frame f (PARSE_DOUBLE_MIN_MAX name lo hi)"
  by (simp add: frame_def PARSE_DOUBLE_MIN_MAX_def Let_def split: option.splits)

lemma parse_enable_logging_frame:
  "(\<And>v s. f (s\<lparr>settings := (settings s)\<lparr>enable_logging := v\<rparr>\<rparr>) = f s) \<Longrightarrow>
     frame f parse_enable_logging"
  by (simp add: frame_def parse_enable_logging_def split: option.splits)

lemma flight_mode_block_frame:
  "(\<And>v s. f (s\<lparr>settings := assign v (settings s)\<rparr>) = f s) \<Longrightarrow>
     frame f (flight_mode_block name field assign)"
  by (simp add: frame_def flight_mode_block_def Let_def split: option.splits prod.splits)

lemma controller_block_frame:
  "(\<And>v s. f (assign v s) = f s) \<Longrightarrow> frame f (controller_block e name var assign)"
  by (simp add: frame_def controller_block_def Let_def split: option.splits prod.splits)

lemma check_feedback_hz_frame: "frame f check_feedback_hz"
  by (simp add: frame_def check_feedback_hz_def)

lemma parse_layout_frame:
  "(\<And>n l s. f (s\<lparr>settings := (settings s)\<lparr>num_rotors := n, layout := l\<rparr>\<rparr>) = f s) \<Longrightarrow>
     frame f (return_m1_if failed (call u parse_layout))"
  by (simp add: frame_def return_m1_if_def call_def parse_layout_def Let_def
      split: option.splits prod.splits)

lemma parse_thrust_map_frame:
  "(\<And>t s. f (s\<lparr>settings := (settings s)\<lparr>thrust_map := t\<rparr>\<rparr>) = f s) \<Longrightarrow>
     frame f (return_m1_if failed (call u parse_thrust_map))"
  by (simp add: frame_def return_m1_if_def call_def parse_thrust_map_def Let_def
      split: option.splits prod.splits)

lemma parse_kill_mode_frame:
  "(\<And>t s. f (s\<lparr>settings := (settings s)\<lparr>dsm_kill_mode := t\<rparr>\<rparr>) = f s) \<Longrightarrow>
     frame f (return_m1_if failed (call u parse_kill_mode))"
  by (simp add: frame_def return_m1_if_def call_def parse_kill_mode_def Let_def
      split: option.splits prod.splits)

lemmas frames = PARSE_BOOL_frame PARSE_INT_frame PARSE_INT_MIN_MAX_frame PARSE_POLARITY_frame
  PARSE_DOUBLE_MIN_MAX_frame parse_enable_logging_frame flight_mode_block_frame
  controller_block_frame check_feedback_hz_frame parse_layout_frame parse_thrust_map_frame
  parse_kill_mode_frame

lemmas stmts_defs = stmts_parse_def stmts_physical_def stmts_flight_modes_def stmts_dsm_def
  stmts_feedback_hz_def stmts_printf_def stmts_controllers_def

lemma read_settings_frame_flag: "frame was_load_successful (read_settings e)"
  by (simp add: frame_def read_settings_def load_default_settings_def write_settings_to_disk_def
      Let_def split: settings_file.splits)

lemma parse_frame_flag: "st \<in> set (stmts_parse e) \<Longrightarrow> frame was_load_successful st"
  by (auto simp: stmts_defs intro!: frames)

lemma parse_frame_jobj: "st \<in> set (stmts_parse e) \<Longrightarrow> frame jobj st"
  by (auto simp: stmts_defs intro!: frames)

lemma after_enable_logging_frame:
  "st \<in> set (stmts_flight_modes @ stmts_dsm e @ stmts_feedback_hz @ stmts_printf
      @ stmts_controllers e) \<Longrightarrow> frame (\<lambda>s. enable_logging (settings s)) st"
  by (auto simp: stmts_defs intro!: frames)

lemma after_feedback_hz_frame:
  "st \<in> set (stmts_printf @ stmts_controllers e) \<Longrightarrow> frame (\<lambda>s. feedback_hz (settings s)) st"
  by (auto simp: stmts_defs intro!: frames)

lemma read_settings_jobj: "jobj (snd (read_settings e s)) = source s"
  by (simp add: read_settings_def source_def load_default_settings_def
      write_settings_to_disk_def Let_def split: settings_file.splits)

lemma is_boolean: "json_object_is_type tmp json_type_boolean \<Longrightarrow> \<exists>b. tmp = json_boolean b"
  by (cases tmp) (simp_all add: json_object_is_type_def)

lemma is_int: "json_object_is_type tmp json_type_int \<Longrightarrow> \<exists>n. tmp = json_int n"
  by (cases tmp) (simp_all add: json_object_is_type_def)

lemma enable_logging_flows:
  assumes "flows [parse_enable_logging] s = Some s'"
  shows "\<exists>b. json_object_object_get_ex (jobj s) ''enable_logging'' = Some (json_boolean b)
           \<and> enable_logging (settings s') = (if b then 1 else 0)"
proof -
  from assms obtain tmp where
    tmp: "json_object_object_get_ex (jobj s) ''enable_logging'' = Some tmp"
    and ty: "json_object_is_type tmp json_type_boolean"
    and s': "s' = s\<lparr>settings := (settings s)\<lparr>enable_logging := json_object_get_boolean tmp\<rparr>\<rparr>"
    by (auto simp: parse_enable_logging_def split: option.splits if_splits)
  from ty obtain b where "tmp = json_boolean b" using is_boolean by blast
  with tmp s' show ?thesis by simp
qed

lemma get_int_exact:
  "json_object_get_int (json_int n) = v \<Longrightarrow> v = 50 \<or> v = 100 \<or> v = 200 \<Longrightarrow> n = v"
  by (auto simp: INT32_MIN_def INT32_MAX_def split: if_splits)

lemma feedback_hz_flows:
  assumes "flows stmts_feedback_hz s = Some s'"
  shows "\<exists>n. (n = 50 \<or> n = 100 \<or> n = 200)
           \<and> json_object_object_get_ex (jobj s) ''feedback_hz'' = Some (json_int n)
           \<and> feedback_hz (settings s') = n"
proof -
  from assms obtain tmp where
    tmp: "json_object_object_get_ex (jobj s) ''feedback_hz'' = Some tmp"
    and ty: "json_object_is_type tmp json_type_int"
    and s': "s' = s\<lparr>settings := (settings s)\<lparr>feedback_hz := json_object_get_int tmp\<rparr>\<rparr>"
    and ok: "json_object_get_int tmp = 50 \<or> json_object_get_int tmp = 100
               \<or> json_object_get_int tmp = 200"
    by (auto simp: stmts_feedback_hz_def PARSE_INT_def check_feedback_hz_def
        split: option.splits if_splits)
  from ty obtain n where n: "tmp = json_int n" using is_int by blast
  with ok have "n = json_object_get_int (json_int n)" using get_int_exact by blast
  with tmp s' ok n show ?thesis by auto
qed

subsection \<open>The outcome of a load\<close>

lemma flows_Cons:
  "flows (st # sts) s = (case fst (st s) of None \<Rightarrow> flows sts (snd (st s)) | Some r \<Rightarrow> None)"
  by (cases "st s") (simp split: option.splits)

lemma flows_append:
  "flows (xs @ ys) s = (case flows xs s of None \<Rightarrow> None | Some s1 \<Rightarrow> flows ys s1)"
proof (induction xs arbitrary: s)
  case Nil
  show ?case by simp
next
  case (Cons st xs)
  show ?case
    by (cases "fst (st s)") (simp_all add: flows_Cons Cons.IH del: flows.simps)
qed

lemma stopped_returns_m1:
  "(\<And>st. st \<in> set sts \<Longrightarrow> returns_only_m1 st) \<Longrightarrow> flows sts s = None \<Longrightarrow>
     fst (run_stmts sts k s) = - 1"
proof (induction sts arbitrary: s)
  case Nil
  then show ?case by simp
next
  case (Cons st sts)
  show ?case
  proof (cases "fst (st s)")
    case None
    with Cons.prems(2) have "flows sts (snd (st s)) = None"
      by (simp add: flows_Cons del: flows.simps)
    then have "fst (run_stmts sts k (snd (st s))) = - 1"
      using Cons.IH Cons.prems(1) by simp
    with None show ?thesis by (simp add: run_stmts_Cons then_stmt_fst_snd)
  next
    case (Some r)
    moreover have "returns_only_m1 st" using Cons.prems(1) by simp
    ultimately have "r = - 1" by (simp add: returns_only_m1_def)
    with Some show ?thesis by (simp add: run_stmts_Cons then_stmt_fst_snd)
  qed
qed

lemma framed_run:
  assumes "\<And>st. st \<in> set sts \<Longrightarrow> frame f st" and "\<And>s1. f (snd (k s1)) = f s1"
  shows "f (snd (run_stmts sts k s)) = f s"
proof -
  have "(\<lambda>r s'. f s' = f s) (fst (run_stmts sts k s)) (snd (run_stmts sts k s))"
    by (rule run_stmts_inv [where I = "\<lambda>s'. f s' = f s"])
       (use assms in \<open>simp_all add: frame_def\<close>)
  then show ?thesis .
qed

lemma framed_flows:
  "(\<And>st. st \<in> set sts \<Longrightarrow> frame f st) \<Longrightarrow> flows sts s = Some s1 \<Longrightarrow> f s1 = f s"
proof (induction sts arbitrary: s)
  case Nil
  then show ?case by simp
next
  case (Cons st sts)
  from Cons.prems(2) have none: "fst (st s) = None" and rest: "flows sts (snd (st s)) = Some s1"
    by (simp_all add: flows_Cons del: flows.simps split: option.splits)
  have "frame f st" using Cons.prems(1) by simp
  then have "f (snd (st s)) = f s" by (simp add: frame_def)
  moreover have "f s1 = f (snd (st s))" using Cons.IH [OF _ rest] Cons.prems(1) by simp
  ultimately show ?case by simp
qed

lemma load_unfold:
  "settings_load_from_file e g =
     then_stmt (read_settings e)
       (run_stmts (stmts_parse e) (\<lambda>g'. (0, g'\<lparr>was_load_successful := 1\<rparr>)))
       (g\<lparr>was_load_successful := 0\<rparr>)"
  by (simp add: settings_load_from_file_def load_body_def run_stmts_Cons)

lemma load_flag:
  "(fst (settings_load_from_file e g) = - 1
      \<and> was_load_successful (snd (settings_load_from_file e g)) = 0)
   \<or> (fst (settings_load_from_file e g) = 0
      \<and> was_load_successful (snd (settings_load_from_file e g)) = 1)"
proof -
  let ?Q = "\<lambda>r s'. (r = - 1 \<and> was_load_successful s' = 0) \<or> (r = (0::int) \<and> was_load_successful s' = 1)"
  have "?Q (fst (run_stmts (load_body e) (\<lambda>g'. (0, g'\<lparr>was_load_successful := 1\<rparr>))
                  (g\<lparr>was_load_successful := 0\<rparr>)))
           (snd (run_stmts (load_body e) (\<lambda>g'. (0, g'\<lparr>was_load_successful := 1\<rparr>))
                  (g\<lparr>was_load_successful := 0\<rparr>)))"
  proof (rule run_stmts_inv [where I = "\<lambda>s. was_load_successful s = 0"])
    fix st :: "'a state stmt" and s :: "'a state"
    assume st: "st \<in> set (load_body e)" and s: "was_load_successful s = 0"
    have fr: "frame was_load_successful st"
      using st read_settings_frame_flag parse_frame_flag by (auto simp: load_body_def)
    with s show "was_load_successful (snd (st s)) = 0" by (simp add: frame_def)
    fix r assume "fst (st s) = Some r"
    moreover have "returns_only_m1 st" using st by (rule load_body_only_m1)
    ultimately have "r = - 1" by (simp add: returns_only_m1_def)
    with fr s show "?Q r (snd (st s))" by (simp add: frame_def)
  qed simp_all
  then show ?thesis by (simp add: settings_load_from_file_def)
qed

lemma load_success_flows:
  assumes "fst (settings_load_from_file e g) = 0"
  shows "\<exists>s. flows (load_body e) (g\<lparr>was_load_successful := 0\<rparr>) = Some s
           \<and> snd (settings_load_from_file e g) = s\<lparr>was_load_successful := 1\<rparr>"
proof (cases "flows (load_body e) (g\<lparr>was_load_successful := 0\<rparr>)")
  case None
  have "fst (run_stmts (load_body e) (\<lambda>g'. (0, g'\<lparr>was_load_successful := 1\<rparr>))
          (g\<lparr>was_load_successful := 0\<rparr>)) = - 1"
    by (rule stopped_returns_m1) (simp_all add: load_body_only_m1 None)
  with assms show ?thesis by (simp add: settings_load_from_file_def)
next
  case (Some s)
  then show ?thesis by (simp add: settings_load_from_file_def run_stmts_flows)
qed

lemma flows_appendD:
  "flows (xs @ ys) s = Some s2 \<Longrightarrow> \<exists>s1. flows xs s = Some s1 \<and> flows ys s1 = Some s2"
  by (simp add: flows_append split: option.splits)

lemma parse_flows_values:
  assumes fl: "flows (stmts_parse e) s = Some s'"
  shows "(\<exists>b. json_object_object_get_ex (jobj s) ''enable_logging'' = Some (json_boolean b)
            \<and> enable_logging (settings s') = (if b then 1 else 0))
       \<and> (\<exists>n. (n = 50 \<or> n = 100 \<or> n = 200)
            \<and> json_object_object_get_ex (jobj s) ''feedback_hz'' = Some (json_int n)
            \<and> feedback_hz (settings s') = n)"
proof -
  let ?R = "stmts_flight_modes @ stmts_dsm e @ stmts_feedback_hz @ stmts_printf
              @ stmts_controllers e"
  from fl obtain s1 where s1: "flows (stmts_physical e) s = Some s1"
    and fl1: "flows ([parse_enable_logging] @ ?R) s1 = Some s'"
    unfolding stmts_parse_def by (blast dest: flows_appendD)
  from fl1 obtain s2 where s2: "flows [parse_enable_logging] s1 = Some s2"
    and fl2: "flows ?R s2 = Some s'"
    by (blast dest: flows_appendD)
  have "flows ((stmts_flight_modes @ stmts_dsm e) @ stmts_feedback_hz
          @ (stmts_printf @ stmts_controllers e)) s2 = Some s'"
    using fl2 by simp
  then obtain s3 s4 where s3: "flows (stmts_flight_modes @ stmts_dsm e) s2 = Some s3"
    and s4: "flows stmts_feedback_hz s3 = Some s4"
    and s5: "flows (stmts_printf @ stmts_controllers e) s4 = Some s'"
    by (blast dest: flows_appendD)
  have j1: "jobj s1 = jobj s"
    by (rule framed_flows [OF _ s1]) (rule parse_frame_jobj [of _ e], simp add: stmts_parse_def)
  have j2: "jobj s2 = jobj s1"
    by (rule framed_flows [OF _ s2]) (rule parse_frame_jobj [of _ e], simp add: stmts_parse_def)
  have j3: "jobj s3 = jobj s2"
    by (rule framed_flows [OF _ s3]) (rule parse_frame_jobj [of _ e], auto simp: stmts_parse_def)
  have el: "enable_logging (settings s') = enable_logging (settings s2)"
    by (rule framed_flows [OF _ fl2, where f = "\<lambda>s. enable_logging (settings s)"])
       (rule after_enable_logging_frame)
  have hz: "feedback_hz (settings s') = feedback_hz (settings s4)"
    by (rule framed_flows [OF _ s5, where f = "\<lambda>s. feedback_hz (settings s)"])
       (rule after_feedback_hz_frame)
  from enable_logging_flows [OF s2] feedback_hz_flows [OF s4] j1 j2 j3 el hz
  show ?thesis by simp
qed

lemma load_success_values:
  assumes "fst (settings_load_from_file e g) = 0"
  shows "(\<exists>b. json_object_object_get_ex (source g) ''enable_logging'' = Some (json_boolean b)
            \<and> enable_logging (settings (snd (settings_load_from_file e g))) = (if b then 1 else 0))
       \<and> (\<exists>n. (n = 50 \<or> n = 100 \<or> n = 200)
            \<and> json_object_object_get_ex (source g) ''feedback_hz'' = Some (json_int n)
            \<and> feedback_hz (settings (snd (settings_load_from_file e g))) = n)"
proof -
  let ?s0 = "g\<lparr>was_load_successful := 0\<rparr>"
  from load_success_flows [OF assms] obtain s where
    fl: "flows (load_body e) ?s0 = Some s"
    and fin: "snd (settings_load_from_file e g) = s\<lparr>was_load_successful := 1\<rparr>"
    by blast
  from fl have fl': "flows (stmts_parse e) (snd (read_settings e ?s0)) = Some s"
    by (simp add: load_body_def flows_Cons del: flows.simps split: option.splits)
  have "jobj (snd (read_settings e ?s0)) = source g"
    by (simp add: read_settings_jobj source_def)
  with parse_flows_values [OF fl'] fin show ?thesis by simp
qed


subsection \<open>Looking members up; the defaults load\<close>

lemma lh_insert_lookup:
  "map_of (lh_insert key val kvs) k = (if k = key then Some val else map_of kvs k)"
  by (induction kvs) auto

lemma object_add_lookup:
  "json_object_object_get_ex (json_object_object_add (json_obj kvs) key val) k =
     (if k = key then Some val else json_object_object_get_ex (json_obj kvs) k)"
  by (simp add: lh_insert_lookup)

lemma foldl_add_is_obj:
  "\<exists>kvs'. foldl (\<lambda>obj (key, val). json_object_object_add obj key val) (json_obj kvs) members
     = json_obj kvs'"
  by (induction members arbitrary: kvs) auto

lemma foldl_add_lookup:
  "json_object_object_get_ex
     (foldl (\<lambda>obj (key, val). json_object_object_add obj key val) (json_obj kvs) members) k
   = (case map_of (rev members) k of Some v \<Rightarrow> Some v | None \<Rightarrow> map_of kvs k)"
proof (induction members arbitrary: kvs)
  case Nil
  show ?case by simp
next
  case (Cons m members)
  obtain key val where m: "m = (key, val)" by (cases m)
  show ?case
    by (simp add: m Cons.IH lh_insert_lookup map_add_def split: option.splits)
qed

lemma object_of_lookup:
  "json_object_object_get_ex (object_of members) k = map_of (rev members) k"
  by (simp add: object_of_def json_object_new_object_def foldl_add_lookup split: option.splits)

lemma object_of_not_NULL: "object_of members \<noteq> NULL"
  using foldl_add_is_obj [of "[]" members]
  by (auto simp: object_of_def json_object_new_object_def)

lemma default_coefficients_eq:
  "default_coefficients = json_array [json_double 0.1, json_double 0.2, json_double 0.3]"
  by (simp add: default_coefficients_def json_object_new_array_def)

lemma default_controller_lookups:
  "json_object_object_get_ex (default_controller g w) ''gain'' = Some (json_double g)"
  "json_object_object_get_ex (default_controller g w) ''CT_or_DT'' = Some (json_string ''CT'')"
  "json_object_object_get_ex (default_controller g w) ''crossover_freq_rad_per_sec'' = Some (json_double w)"
  "json_object_object_get_ex (default_controller g w) ''numerator'' = Some default_coefficients"
  "json_object_object_get_ex (default_controller g w) ''denominator'' = Some default_coefficients"
  by (simp_all add: default_controller_def object_of_lookup)

lemma default_lookups:
    "json_object_object_get_ex default_jobj ''layout'' = Some (json_string ''LAYOUT_6DOF_ROTORBITS'')"
    "json_object_object_get_ex default_jobj ''thrust_map'' = Some (json_string ''RX2206_4S'')"
    "json_object_object_get_ex default_jobj ''v_nominal'' = Some (json_double 7.4)"
    "json_object_object_get_ex default_jobj ''feedback_hz'' = Some (json_int 100)"
    "json_object_object_get_ex default_jobj ''enable_logging'' = Some (json_boolean False)"
    "json_object_object_get_ex default_jobj ''num_dsm_modes'' = Some (json_int 3)"
    "json_object_object_get_ex default_jobj ''flight_mode_1'' = Some (json_string ''TEST_BENCH_4DOF'')"
    "json_object_object_get_ex default_jobj ''flight_mode_2'' = Some (json_string ''TEST_BENCH_6DOF'')"
    "json_object_object_get_ex default_jobj ''flight_mode_3'' = Some (json_string ''DIRECT_THROTTLE_4DOF'')"
    "json_object_object_get_ex default_jobj ''dsm_thr_ch'' = Some (json_int 1)"
    "json_object_object_get_ex default_jobj ''dsm_thr_pol'' = Some (json_int 1)"
    "json_object_object_get_ex default_jobj ''dsm_roll_ch'' = Some (json_int 2)"
    "json_object_object_get_ex default_jobj ''dsm_roll_pol'' = Some (json_int 1)"
    "json_object_object_get_ex default_jobj ''dsm_pitch_ch'' = Some (json_int 3)"
    "json_object_object_get_ex default_jobj ''dsm_pitch_pol'' = Some (json_int 1)"
    "json_object_object_get_ex default_jobj ''dsm_yaw_ch'' = Some (json_int 4)"
    "json_object_object_get_ex default_jobj ''dsm_yaw_pol'' = Some (json_int 1)"
    "json_object_object_get_ex default_jobj ''dsm_mode_ch'' = Some (json_int 5)"
    "json_object_object_get_ex default_jobj ''dsm_mode_pol'' = Some (json_int 1)"
    "json_object_object_get_ex default_jobj ''dsm_kill_mode'' = Some (json_string ''DSM_KILL_NEGATIVE_THROTTLE'')"
    "json_object_object_get_ex default_jobj ''dsm_kill_ch'' = Some (json_int 6)"
    "json_object_object_get_ex default_jobj ''dsm_kill_pol'' = Some (json_int 1)"
    "json_object_object_get_ex default_jobj ''printf_arm'' = Some (json_boolean True)"
    "json_object_object_get_ex default_jobj ''printf_altitude'' = Some (json_boolean False)"
    "json_object_object_get_ex default_jobj ''printf_rpy'' = Some (json_boolean False)"
    "json_object_object_get_ex default_jobj ''printf_sticks'' = Some (json_boolean False)"
    "json_object_object_get_ex default_jobj ''printf_setpoint'' = Some (json_boolean True)"
    "json_object_object_get_ex default_jobj ''printf_u'' = Some (json_boolean False)"
    "json_object_object_get_ex default_jobj ''printf_motors'' = Some (json_boolean False)"
    "json_object_object_get_ex default_jobj ''printf_mode'' = Some (json_boolean True)"
    "json_object_object_get_ex default_jobj ''roll_controller'' = Some (default_controller 1 6.283)"
    "json_object_object_get_ex default_jobj ''pitch_controller'' = Some (default_controller 1 6.283)"
    "json_object_object_get_ex default_jobj ''yaw_controller'' = Some (default_controller 1 3.141)"
    "json_object_object_get_ex default_jobj ''altitude_controller'' = Some (default_controller 1 0.6283)"
  by (simp_all add: default_jobj_def default_members_def object_of_lookup)

lemma default_jobj_not_NULL: "default_jobj \<noteq> NULL"
  by (simp add: default_jobj_def object_of_not_NULL)

lemma object_of_add_lookup:
  "json_object_object_get_ex (json_object_object_add (object_of members) key val) k =
     (if k = key then Some val else json_object_object_get_ex (object_of members) k)"
proof -
  obtain kvs where "object_of members = json_obj kvs"
    using foldl_add_is_obj [of "[]" members]
    by (auto simp: object_of_def json_object_new_object_def)
  then show ?thesis by (simp add: lh_insert_lookup)
qed

lemma object_of_add_is_object_of:
  "json_object_object_add (object_of members) key val = object_of (members @ [(key, val)])"
  by (simp add: object_of_def)


lemma flows_all_pass:
  assumes "\<And>st s. st \<in> set sts \<Longrightarrow> I s \<Longrightarrow> I (snd (st s)) \<and> fst (st s) = None" and "I s"
  shows "\<exists>s1. flows sts s = Some s1 \<and> I s1"
  using assms
proof (induction sts arbitrary: s)
  case Nil
  then show ?case by simp
next
  case (Cons st sts)
  have "I (snd (st s)) \<and> fst (st s) = None" using Cons.prems by simp
  moreover from this have "\<exists>s1. flows sts (snd (st s)) = Some s1 \<and> I s1"
    using Cons.IH [of "snd (st s)"] Cons.prems(1) by simp
  ultimately show ?case by (simp add: flows_Cons del: flows.simps)
qed

lemma default_controller_parses:
  assumes "\<And>f dt n d w. fst (rc_filter_c2d_tustin lib f dt n d w) = 0"
  shows "fst (parse_controller lib (default_controller g w) flt hz) = 0"
  using assms [of "rc_filter_free lib flt" "1 / real_of_int hz" "[0.1, 0.2, 0.3]" "[0.1, 0.2, 0.3]" w]
  by (auto simp: parse_controller_def default_controller_lookups default_coefficients_eq
      json_object_is_type_def c_str_def Let_def split: prod.splits)

lemma defaults_pass_before_hz:
  assumes "layout_ret e \<noteq> - 1" "thrust_map_ret e \<noteq> - 1" "kill_mode_ret e \<noteq> - 1"
    and "st \<in> set (stmts_physical e @ [parse_enable_logging] @ stmts_flight_modes @ stmts_dsm e)"
    and "jobj s = default_jobj"
  shows "jobj (snd (st s)) = default_jobj \<and> fst (st s) = None"
proof -
  have "frame jobj st"
    using assms(4) by (intro parse_frame_jobj [of _ e]) (auto simp: stmts_parse_def)
  then have "jobj (snd (st s)) = default_jobj" using assms(5) by (simp add: frame_def)
  moreover have "fst (st s) = None"
    using assms
    by (auto simp: stmts_physical_def stmts_flight_modes_def stmts_dsm_def
        return_m1_if_def call_def parse_layout_def parse_thrust_map_def parse_kill_mode_def
        PARSE_DOUBLE_MIN_MAX_def PARSE_INT_MIN_MAX_def PARSE_POLARITY_def
        parse_enable_logging_def flight_mode_block_def parse_flight_mode_def
        default_lookups json_object_is_type_def c_str_def INT32_MIN_def INT32_MAX_def Let_def)
  ultimately show ?thesis by simp
qed

lemma controller_block_fst:
  "fst (controller_block e name var assign s) =
     (case json_object_object_get_ex (jobj s) name of
        None \<Rightarrow> Some (- 1)
      | Some tmp \<Rightarrow>
          if fst (parse_controller (rc e) tmp (var s) (feedback_hz (settings s))) \<noteq> 0
          then Some (- 1) else None)"
  by (simp add: controller_block_def Let_def split: option.splits prod.splits)

lemma flows_appendI:
  "flows xs s = Some s1 \<Longrightarrow> flows ys s1 = r \<Longrightarrow> flows (xs @ ys) s = r"
  by (simp add: flows_append)

lemma defaults_pass_after_hz:
  assumes lib: "\<And>f dt n d w. fst (rc_filter_c2d_tustin (rc e) f dt n d w) = 0"
    and "st \<in> set (stmts_printf @ stmts_controllers e)"
    and "jobj s = default_jobj"
  shows "jobj (snd (st s)) = default_jobj \<and> fst (st s) = None"
proof -
  have "frame jobj st"
    using assms(2) by (intro parse_frame_jobj [of _ e]) (auto simp: stmts_parse_def)
  then have "jobj (snd (st s)) = default_jobj" using assms(3) by (simp add: frame_def)
  moreover have "fst (st s) = None"
    using assms(2,3) default_controller_parses [of "rc e", OF lib]
    by (auto simp: stmts_printf_def stmts_controllers_def PARSE_BOOL_def controller_block_fst
        default_lookups json_object_is_type_def)
  ultimately show ?thesis by simp
qed

lemma defaults_parse:
  assumes ret: "layout_ret e \<noteq> - 1" "thrust_map_ret e \<noteq> - 1" "kill_mode_ret e \<noteq> - 1"
    and lib: "\<And>f dt n d w. fst (rc_filter_c2d_tustin (rc e) f dt n d w) = 0"
    and s: "jobj s = default_jobj"
  shows "\<exists>s'. flows (stmts_parse e) s = Some s'"
proof -
  let ?A = "stmts_physical e @ [parse_enable_logging] @ stmts_flight_modes @ stmts_dsm e"
  let ?C = "stmts_printf @ stmts_controllers e"
  obtain s1 where s1: "flows ?A s = Some s1" and j1: "jobj s1 = default_jobj"
    using flows_all_pass [of ?A "\<lambda>s. jobj s = default_jobj" s] defaults_pass_before_hz [OF ret] s
    by blast
  let ?s2 = "s1\<lparr>settings := (settings s1)\<lparr>feedback_hz := 100\<rparr>\<rparr>"
  have s2: "flows stmts_feedback_hz s1 = Some ?s2"
    by (simp add: stmts_feedback_hz_def PARSE_INT_def check_feedback_hz_def j1 default_lookups
        json_object_is_type_def INT32_MIN_def INT32_MAX_def)
  have "jobj ?s2 = default_jobj" using j1 by simp
  then obtain s3 where s3: "flows ?C ?s2 = Some s3"
    using flows_all_pass [of ?C "\<lambda>s. jobj s = default_jobj" ?s2] defaults_pass_after_hz [OF lib]
    by blast
  have "flows (stmts_feedback_hz @ ?C) s1 = Some s3" by (rule flows_appendI [OF s2 s3])
  then have all: "flows (?A @ stmts_feedback_hz @ ?C) s = Some s3" by (rule flows_appendI [OF s1])
  have eq: "stmts_parse e = ?A @ stmts_feedback_hz @ ?C" by (simp add: stmts_parse_def)
  show ?thesis unfolding eq using all by blast
qed

lemma load_defaults:
  assumes ret: "layout_ret e \<noteq> - 1" "thrust_map_ret e \<noteq> - 1" "kill_mode_ret e \<noteq> - 1"
    and lib: "\<And>f dt n d w. fst (rc_filter_c2d_tustin (rc e) f dt n d w) = 0"
    and src: "source g = default_jobj"
  shows "fst (settings_load_from_file e g) = 0"
proof -
  let ?s0 = "g\<lparr>was_load_successful := 0\<rparr>"
  have rd: "fst (read_settings e ?s0) = None"
    using src default_jobj_not_NULL
    by (auto simp: read_settings_def source_def load_default_settings_def
        write_settings_to_disk_def Let_def split: settings_file.splits)
  have "jobj (snd (read_settings e ?s0)) = default_jobj"
    using src by (simp add: read_settings_jobj source_def)
  from defaults_parse [OF ret lib this] obtain s' where
    "flows (stmts_parse e) (snd (read_settings e ?s0)) = Some s'" by blast
  with rd show ?thesis
    by (simp add: load_unfold then_stmt_fst_snd run_stmts_flows)
qed

subsection \<open>The logging flag and the loop frequency\<close>

lemma enable_logging_stored:
  assumes reach: "reaches_enable_logging e g"
    and key: "json_object_object_get_ex (source g) ''enable_logging'' = Some (json_boolean b)"
  shows "enable_logging (settings (snd (settings_load_from_file e g))) = (if b then 1 else 0)"
proof -
  let ?s0 = "g\<lparr>was_load_successful := 0\<rparr>"
  let ?k = "\<lambda>g'. (0::int, g'\<lparr>was_load_successful := 1\<rparr>)"
  let ?R = "stmts_flight_modes @ stmts_dsm e @ stmts_feedback_hz @ stmts_printf
              @ stmts_controllers e"
  from reach obtain s1 where s1: "flows (read_settings e # stmts_physical e) ?s0 = Some s1"
    by (auto simp: reaches_enable_logging_def)
  then have rd: "fst (read_settings e ?s0) = None"
    and ph: "flows (stmts_physical e) (snd (read_settings e ?s0)) = Some s1"
    by (simp_all add: flows_Cons del: flows.simps split: option.splits)
  have "jobj s1 = jobj (snd (read_settings e ?s0))"
    by (rule framed_flows [OF _ ph]) (rule parse_frame_jobj [of _ e], simp add: stmts_parse_def)
  then have j1: "jobj s1 = source g" by (simp add: read_settings_jobj source_def)
  let ?s2 = "s1\<lparr>settings := (settings s1)\<lparr>enable_logging := (if b then 1 else 0)\<rparr>\<rparr>"
  have el: "parse_enable_logging s1 = (None, ?s2)"
    by (simp add: parse_enable_logging_def j1 key json_object_is_type_def)
  have body: "load_body e = (read_settings e # stmts_physical e) @ parse_enable_logging # ?R"
    by (simp add: load_body_def stmts_parse_def)
  have "settings_load_from_file e g = run_stmts (parse_enable_logging # ?R) ?k s1"
    unfolding settings_load_from_file_def body run_stmts_append
    by (rule run_stmts_flows [OF s1])
  also have "\<dots> = run_stmts ?R ?k ?s2"
    by (simp add: run_stmts_Cons then_stmt_def el)
  finally have "enable_logging (settings (snd (settings_load_from_file e g)))
                  = enable_logging (settings (snd (run_stmts ?R ?k ?s2)))" by simp
  also have "\<dots> = enable_logging (settings ?s2)"
    by (rule framed_run [where f = "\<lambda>s. enable_logging (settings s)"])
       (simp_all add: after_enable_logging_frame)
  finally show ?thesis by simp
qed

text \<open>
  C7, as amended. For every settings file and every state, \<^verbatim>\<open>settings_load_from_file\<close> returns -1
  when the content it parses has no \<^verbatim>\<open>enable_logging\<close> member or one that is not a boolean.
  When the member is the boolean \<open>b\<close> and control reaches its block (the file was read and
  the layout, thrust map and nominal voltage before it were accepted), \<open>b\<close> is stored in
  \<^verbatim>\<open>settings.enable_logging\<close>, whatever the rest of the load does. Whenever the load returns
  0, \<^verbatim>\<open>settings.enable_logging\<close> is the file's boolean and \<^verbatim>\<open>settings.feedback_hz\<close> the file's
  integer \<^verbatim>\<open>feedback_hz\<close>.
\<close>

theorem enable_logging_loaded:
  "((\<forall>b. json_object_object_get_ex (source g) ''enable_logging'' \<noteq> Some (json_boolean b))
      \<longrightarrow> fst (settings_load_from_file e g) = - 1)
   \<and> (reaches_enable_logging e g
        \<and> json_object_object_get_ex (source g) ''enable_logging'' = Some (json_boolean b)
      \<longrightarrow> enable_logging (settings (snd (settings_load_from_file e g))) = (if b then 1 else 0))
   \<and> (fst (settings_load_from_file e g) = 0
      \<longrightarrow> (\<exists>b'. json_object_object_get_ex (source g) ''enable_logging'' = Some (json_boolean b')
              \<and> enable_logging (settings (snd (settings_load_from_file e g)))
                   = (if b' then 1 else 0))
        \<and> (\<exists>n. json_object_object_get_ex (source g) ''feedback_hz'' = Some (json_int n)
              \<and> feedback_hz (settings (snd (settings_load_from_file e g))) = n))"
proof (intro conjI impI)
  assume no: "\<forall>b. json_object_object_get_ex (source g) ''enable_logging'' \<noteq> Some (json_boolean b)"
  show "fst (settings_load_from_file e g) = - 1"
  proof (rule ccontr)
    assume "fst (settings_load_from_file e g) \<noteq> - 1"
    then have "fst (settings_load_from_file e g) = 0" using load_flag [of e g] by auto
    from load_success_values [OF this] no show False by blast
  qed
next
  assume "reaches_enable_logging e g
        \<and> json_object_object_get_ex (source g) ''enable_logging'' = Some (json_boolean b)"
  then show "enable_logging (settings (snd (settings_load_from_file e g))) = (if b then 1 else 0)"
    using enable_logging_stored by blast
next
  assume ok: "fst (settings_load_from_file e g) = 0"
  from load_success_values [OF ok]
  show "\<exists>b'. json_object_object_get_ex (source g) ''enable_logging'' = Some (json_boolean b')
              \<and> enable_logging (settings (snd (settings_load_from_file e g)))
                   = (if b' then 1 else 0)" by blast
  from load_success_values [OF ok]
  show "\<exists>n. json_object_object_get_ex (source g) ''feedback_hz'' = Some (json_int n)
              \<and> feedback_hz (settings (snd (settings_load_from_file e g))) = n" by blast
qed

lemma run_stmts_stop:
  "fst (st s) = Some r \<Longrightarrow> run_stmts (st # sts) k s = (r, snd (st s))"
  by (simp add: run_stmts_Cons then_stmt_fst_snd)

lemma file_logging_on_lookup:
  "json_object_object_get_ex file_logging_on k =
     (if k = ''enable_logging'' then Some (json_boolean True)
      else json_object_object_get_ex default_jobj k)"
  by (simp add: file_logging_on_def default_jobj_def object_of_add_lookup)

lemma file_bad_layout_lookup:
  "json_object_object_get_ex file_bad_layout k =
     (if k = ''layout'' then Some (json_string ''LAYOUT_5X'')
      else json_object_object_get_ex file_logging_on k)"
proof -
  have eq: "file_logging_on = object_of (default_members @ [(''enable_logging'', json_boolean True)])"
    by (simp add: file_logging_on_def default_jobj_def object_of_add_is_object_of)
  show ?thesis unfolding file_bad_layout_def eq by (simp add: object_of_add_lookup)
qed

lemma file_60_hz_lookup:
  "json_object_object_get_ex file_60_hz k =
     (if k = ''feedback_hz'' then Some (json_int 60)
      else json_object_object_get_ex default_jobj k)"
  by (simp add: file_60_hz_def default_jobj_def object_of_add_lookup)

lemma file_no_logging_key_lookup:
  "json_object_object_get_ex file_no_logging_key ''enable_logging'' = None"
  by (auto simp: file_no_logging_key_def object_of_lookup map_of_eq_None_iff)

lemma example_files_not_NULL:
  "file_logging_on \<noteq> NULL" "file_bad_layout \<noteq> NULL"
  by (simp_all add: file_bad_layout_def file_logging_on_def default_jobj_def
      object_of_add_is_object_of object_of_not_NULL)

lemma bad_layout_load:
  "settings_load_from_file (example_env 0) (state0 (OnDisk file_bad_layout))
     = (- 1, (state0 (OnDisk file_bad_layout))\<lparr>jobj := file_bad_layout\<rparr>)"
proof -
  let ?s1 = "(state0 (OnDisk file_bad_layout))\<lparr>jobj := file_bad_layout\<rparr>"
  have rd: "read_settings (example_env 0) ((state0 (OnDisk file_bad_layout))\<lparr>was_load_successful := 0\<rparr>)
              = (None, ?s1)"
    by (simp add: read_settings_def state0_def example_files_not_NULL)
  have "return_m1_if (\<lambda>r. r = - 1) (call (layout_ret (example_env 0)) parse_layout) ?s1
          = (Some (- 1), ?s1)"
    by (simp add: return_m1_if_def call_def parse_layout_def file_bad_layout_lookup
        json_object_is_type_def c_str_def)
  then have "run_stmts (stmts_parse (example_env 0)) (\<lambda>g'. (0, g'\<lparr>was_load_successful := 1\<rparr>)) ?s1
          = (- 1, ?s1)"
    by (simp add: stmts_parse_def stmts_physical_def run_stmts_stop)
  with rd show ?thesis by (simp add: load_unfold then_stmt_def)
qed

text \<open>
  C7 as stated fails: in this file \<^verbatim>\<open>enable_logging\<close> is the boolean \<^verbatim>\<open>true\<close>, but the layout
  string is not a known one, so the load returns -1 at \<^verbatim>\<open>__parse_layout\<close> and
  \<^verbatim>\<open>settings.enable_logging\<close> keeps its old value 0.
\<close>

theorem enable_logging_not_stored_after_bad_layout:
  "json_object_object_get_ex (source (state0 (OnDisk file_bad_layout))) ''enable_logging''
     = Some (json_boolean True)
   \<and> fst (settings_load_from_file (example_env 0) (state0 (OnDisk file_bad_layout))) = - 1
   \<and> enable_logging (settings (snd (settings_load_from_file (example_env 0)
        (state0 (OnDisk file_bad_layout))))) = 0"
  by (simp add: bad_layout_load)
     (simp add: source_def state0_def settings0_def file_bad_layout_lookup file_logging_on_lookup)

lemma example_env_ok:
  "layout_ret (example_env w) \<noteq> - 1" "thrust_map_ret (example_env w) \<noteq> - 1"
  "kill_mode_ret (example_env w) \<noteq> - 1"
  "fst (rc_filter_c2d_tustin (rc (example_env w)) f dt n d x) = 0"
  by (simp_all add: example_env_def example_rc_def)

lemma example_load_defaults:
  "fst (settings_load_from_file (example_env w) (state0 Missing)) = 0"
  by (rule load_defaults) (simp_all add: example_env_ok source_def state0_def)

lemma logging_on_reaches:
  "reaches_enable_logging (example_env 0) (state0 (OnDisk file_logging_on))"
proof -
  let ?s1 = "(state0 (OnDisk file_logging_on))\<lparr>jobj := file_logging_on\<rparr>"
  have rd: "read_settings (example_env 0) ((state0 (OnDisk file_logging_on))\<lparr>was_load_successful := 0\<rparr>)
              = (None, ?s1)"
    by (simp add: read_settings_def state0_def example_files_not_NULL)
  have "jobj ?s1 = file_logging_on" by simp
  then have "\<exists>s'. flows (stmts_physical (example_env 0)) ?s1 = Some s'"
    by (simp add: stmts_physical_def return_m1_if_def call_def parse_layout_def
        parse_thrust_map_def PARSE_DOUBLE_MIN_MAX_def file_logging_on_lookup default_lookups
        json_object_is_type_def c_str_def Let_def example_env_def)
  with rd show ?thesis by (auto simp: reaches_enable_logging_def)
qed

text \<open>The three cases at concrete inputs: a file without the member, the defaults with
  logging switched on, and a missing file.\<close>

theorem enable_logging_loaded_witness:
  "((\<forall>b. json_object_object_get_ex (source (state0 (OnDisk file_no_logging_key))) ''enable_logging''
           \<noteq> Some (json_boolean b))
      \<and> fst (settings_load_from_file (example_env 0) (state0 (OnDisk file_no_logging_key))) = - 1)
   \<and> (reaches_enable_logging (example_env 0) (state0 (OnDisk file_logging_on))
      \<and> json_object_object_get_ex (source (state0 (OnDisk file_logging_on))) ''enable_logging''
           = Some (json_boolean True)
      \<and> enable_logging (settings (snd (settings_load_from_file (example_env 0)
           (state0 (OnDisk file_logging_on))))) = 1)
   \<and> (fst (settings_load_from_file (example_env 0) (state0 Missing)) = 0
      \<and> enable_logging (settings (snd (settings_load_from_file (example_env 0) (state0 Missing)))) = 0
      \<and> feedback_hz (settings (snd (settings_load_from_file (example_env 0) (state0 Missing)))) = 100)"
proof -
  have a: "\<forall>b. json_object_object_get_ex (source (state0 (OnDisk file_no_logging_key))) ''enable_logging''
           \<noteq> Some (json_boolean b)"
    by (simp add: source_def state0_def file_no_logging_key_lookup)
  have b: "json_object_object_get_ex (source (state0 (OnDisk file_logging_on))) ''enable_logging''
           = Some (json_boolean True)"
    by (simp add: source_def state0_def file_logging_on_lookup)
  have c: "source (state0 Missing) = default_jobj"
    by (simp add: source_def state0_def)
  show ?thesis
    using enable_logging_loaded [of "state0 (OnDisk file_no_logging_key)" "example_env 0"]
      enable_logging_loaded [of "state0 (OnDisk file_logging_on)" "example_env 0" True]
      enable_logging_loaded [of "state0 Missing" "example_env 0" False]
      a b logging_on_reaches example_load_defaults [of 0]
    by (auto simp: c default_lookups)
qed

text \<open>
  C8. Unless the \<^verbatim>\<open>feedback_hz\<close> member of the content parsed is an integer equal to 50, 100 or
  200, \<^verbatim>\<open>settings_load_from_file\<close> returns -1 and leaves \<^verbatim>\<open>was_load_successful\<close> at 0. A load
  that does not return -1 returns 0, sets the flag, and leaves in \<^verbatim>\<open>settings.feedback_hz\<close> the
  value the file gives.
\<close>

theorem feedback_hz_50_100_200:
  "(\<not> (\<exists>n. (n = 50 \<or> n = 100 \<or> n = 200)
            \<and> json_object_object_get_ex (source g) ''feedback_hz'' = Some (json_int n))
      \<longrightarrow> fst (settings_load_from_file e g) = - 1
        \<and> was_load_successful (snd (settings_load_from_file e g)) = 0)
   \<and> (fst (settings_load_from_file e g) \<noteq> - 1
      \<longrightarrow> fst (settings_load_from_file e g) = 0
        \<and> was_load_successful (snd (settings_load_from_file e g)) = 1
        \<and> (\<exists>n. (n = 50 \<or> n = 100 \<or> n = 200)
              \<and> json_object_object_get_ex (source g) ''feedback_hz'' = Some (json_int n)
              \<and> feedback_hz (settings (snd (settings_load_from_file e g))) = n))"
proof -
  have ok: "fst (settings_load_from_file e g) \<noteq> - 1 \<Longrightarrow>
       fst (settings_load_from_file e g) = 0
        \<and> was_load_successful (snd (settings_load_from_file e g)) = 1
        \<and> (\<exists>n. (n = 50 \<or> n = 100 \<or> n = 200)
              \<and> json_object_object_get_ex (source g) ''feedback_hz'' = Some (json_int n)
              \<and> feedback_hz (settings (snd (settings_load_from_file e g))) = n)"
  proof -
    assume "fst (settings_load_from_file e g) \<noteq> - 1"
    with load_flag [of e g] have z: "fst (settings_load_from_file e g) = 0"
      and f: "was_load_successful (snd (settings_load_from_file e g)) = 1" by auto
    from load_success_values [OF z] z f show ?thesis by blast
  qed
  moreover have "fst (settings_load_from_file e g) = - 1 \<Longrightarrow>
      was_load_successful (snd (settings_load_from_file e g)) = 0"
    using load_flag [of e g] by auto
  ultimately show ?thesis by blast
qed

text \<open>A file asking for 60 Hz is refused; the defaults (100 Hz) load.\<close>

theorem feedback_hz_50_100_200_witness:
  "(\<not> (\<exists>n. (n = 50 \<or> n = 100 \<or> n = 200)
            \<and> json_object_object_get_ex (source (state0 (OnDisk file_60_hz))) ''feedback_hz''
                 = Some (json_int n))
      \<and> fst (settings_load_from_file (example_env 0) (state0 (OnDisk file_60_hz))) = - 1
      \<and> was_load_successful (snd (settings_load_from_file (example_env 0)
           (state0 (OnDisk file_60_hz)))) = 0)
   \<and> (fst (settings_load_from_file (example_env 0) (state0 Missing)) \<noteq> - 1
      \<and> json_object_object_get_ex (source (state0 Missing)) ''feedback_hz'' = Some (json_int 100)
      \<and> was_load_successful (snd (settings_load_from_file (example_env 0) (state0 Missing))) = 1
      \<and> feedback_hz (settings (snd (settings_load_from_file (example_env 0) (state0 Missing)))) = 100)"
proof -
  have a: "json_object_object_get_ex (source (state0 (OnDisk file_60_hz))) ''feedback_hz''
             = Some (json_int 60)"
    by (simp add: source_def state0_def file_60_hz_lookup)
  have c: "source (state0 Missing) = default_jobj"
    by (simp add: source_def state0_def)
  show ?thesis
    using feedback_hz_50_100_200 [of "state0 (OnDisk file_60_hz)" "example_env 0"]
      feedback_hz_50_100_200 [of "state0 Missing" "example_env 0"] example_load_defaults [of 0]
    by (auto simp: a c default_lookups)
qed

subsection \<open>The getters\<close>

lemma loads_flag:
  "was_load_successful g = 0 \<Longrightarrow> \<forall>r \<in> set (fst (loads es g)). r \<noteq> 0 \<Longrightarrow>
     was_load_successful (snd (loads es g)) = 0"
proof (induction es arbitrary: g)
  case Nil
  then show ?case by simp
next
  case (Cons e es)
  obtain r g' where l: "settings_load_from_file e g = (r, g')"
    by (cases "settings_load_from_file e g")
  obtain rs g'' where ls: "loads es g' = (rs, g'')" by (cases "loads es g'")
  from Cons.prems(2) l ls have r: "r \<noteq> 0" and rs: "\<forall>r \<in> set (fst (loads es g')). r \<noteq> 0"
    by simp_all
  from load_flag [of e g] l r have "was_load_successful g' = 0" by auto
  from Cons.IH [OF this rs] l ls show ?case by simp
qed

lemma loads_length: "length (fst (loads es g)) = length es"
proof (induction es arbitrary: g)
  case Nil
  show ?case by simp
next
  case (Cons e es)
  obtain r g' where l: "settings_load_from_file e g = (r, g')"
    by (cases "settings_load_from_file e g")
  obtain rs g'' where ls: "loads es g' = (rs, g'')" by (cases "loads es g'")
  from Cons.IH [of g'] l ls show ?case by simp
qed

lemma loads_last_flag:
  "es \<noteq> [] \<Longrightarrow>
     was_load_successful (snd (loads es g)) = (if last (fst (loads es g)) = 0 then 1 else 0)"
proof (induction es arbitrary: g)
  case Nil
  then show ?case by simp
next
  case (Cons e es)
  obtain r g' where l: "settings_load_from_file e g = (r, g')"
    by (cases "settings_load_from_file e g")
  obtain rs g'' where ls: "loads es g' = (rs, g'')" by (cases "loads es g'")
  show ?case
  proof (cases "es = []")
    case True
    with load_flag [of e g] l show ?thesis by auto
  next
    case False
    from loads_length [of es g'] ls False have "rs \<noteq> []" by auto
    with Cons.IH [OF False, of g'] l ls show ?thesis by simp
  qed
qed

lemma bad_layout_refused:
  assumes d: "disk g = OnDisk file_bad_layout"
  shows "fst (settings_load_from_file e g) = - 1"
proof -
  let ?s1 = "g\<lparr>was_load_successful := 0, jobj := file_bad_layout\<rparr>"
  have rd: "read_settings e (g\<lparr>was_load_successful := 0\<rparr>) = (None, ?s1)"
    using d by (simp add: read_settings_def example_files_not_NULL)
  have "return_m1_if (\<lambda>r. r = - 1) (call (layout_ret e) parse_layout) ?s1 = (Some (- 1), ?s1)"
    by (simp add: return_m1_if_def call_def parse_layout_def file_bad_layout_lookup
        json_object_is_type_def c_str_def)
  then have "run_stmts (stmts_parse e) (\<lambda>g'. (0, g'\<lparr>was_load_successful := 1\<rparr>)) ?s1 = (- 1, ?s1)"
    by (simp add: stmts_parse_def stmts_physical_def run_stmts_stop)
  with rd show ?thesis by (simp add: load_unfold then_stmt_def)
qed

text \<open>
  C9, as amended. From a state in which \<^verbatim>\<open>was_load_successful\<close> is 0 (its initial value), after
  any sequence of calls of \<^verbatim>\<open>settings_load_from_file\<close> none of which returned 0, \<^verbatim>\<open>settings_get\<close>
  and the four controller getters return -1 and leave the object behind the caller's pointer
  as it was. In the state a load that returned 0 leaves, each getter returns 0 and the object
  is the loaded \<^verbatim>\<open>settings\<close>, or the loaded controller. In the state a load that did not
  return 0 leaves, whatever the state before it, also one that an earlier successful load
  has left, each getter returns -1 and leaves the object as it was. So after any sequence of
  loads that is not empty the getters succeed when the most recent load returned 0, and fail
  when it did not.
\<close>

theorem getters_guarded_by_flag:
  "(was_load_successful g = 0 \<and> (\<forall>r \<in> set (fst (loads es g)). r \<noteq> 0)
      \<longrightarrow> settings_get (snd (loads es g)) out = (- 1, out)
        \<and> settings_get_roll_controller (snd (loads es g)) ctrl = (- 1, ctrl)
        \<and> settings_get_pitch_controller (snd (loads es g)) ctrl = (- 1, ctrl)
        \<and> settings_get_yaw_controller (snd (loads es g)) ctrl = (- 1, ctrl)
        \<and> settings_get_altitude_controller (snd (loads es g)) ctrl = (- 1, ctrl))
   \<and> (settings_load_from_file e g = (0, g')
      \<longrightarrow> settings_get g' out = (0, settings g')
        \<and> settings_get_roll_controller g' ctrl = (0, roll_controller g')
        \<and> settings_get_pitch_controller g' ctrl = (0, pitch_controller g')
        \<and> settings_get_yaw_controller g' ctrl = (0, yaw_controller g')
        \<and> settings_get_altitude_controller g' ctrl = (0, altitude_controller g'))
   \<and> (settings_load_from_file e g = (r, g') \<and> r \<noteq> 0
      \<longrightarrow> settings_get g' out = (- 1, out)
        \<and> settings_get_roll_controller g' ctrl = (- 1, ctrl)
        \<and> settings_get_pitch_controller g' ctrl = (- 1, ctrl)
        \<and> settings_get_yaw_controller g' ctrl = (- 1, ctrl)
        \<and> settings_get_altitude_controller g' ctrl = (- 1, ctrl))
   \<and> (es \<noteq> [] \<and> last (fst (loads es g)) = 0
      \<longrightarrow> settings_get (snd (loads es g)) out = (0, settings (snd (loads es g)))
        \<and> settings_get_roll_controller (snd (loads es g)) ctrl
             = (0, roll_controller (snd (loads es g)))
        \<and> settings_get_pitch_controller (snd (loads es g)) ctrl
             = (0, pitch_controller (snd (loads es g)))
        \<and> settings_get_yaw_controller (snd (loads es g)) ctrl
             = (0, yaw_controller (snd (loads es g)))
        \<and> settings_get_altitude_controller (snd (loads es g)) ctrl
             = (0, altitude_controller (snd (loads es g))))
   \<and> (es \<noteq> [] \<and> last (fst (loads es g)) \<noteq> 0
      \<longrightarrow> settings_get (snd (loads es g)) out = (- 1, out)
        \<and> settings_get_roll_controller (snd (loads es g)) ctrl = (- 1, ctrl)
        \<and> settings_get_pitch_controller (snd (loads es g)) ctrl = (- 1, ctrl)
        \<and> settings_get_yaw_controller (snd (loads es g)) ctrl = (- 1, ctrl)
        \<and> settings_get_altitude_controller (snd (loads es g)) ctrl = (- 1, ctrl))"
proof -
  have fail: "settings_get s out = (- 1, out)
        \<and> settings_get_roll_controller s ctrl = (- 1, ctrl)
        \<and> settings_get_pitch_controller s ctrl = (- 1, ctrl)
        \<and> settings_get_yaw_controller s ctrl = (- 1, ctrl)
        \<and> settings_get_altitude_controller s ctrl = (- 1, ctrl)"
    if "was_load_successful s = 0" for s :: "'a state"
    using that
    by (simp add: settings_get_def settings_get_roll_controller_def
        settings_get_pitch_controller_def settings_get_yaw_controller_def
        settings_get_altitude_controller_def)
  have ok: "settings_get s out = (0, settings s)
        \<and> settings_get_roll_controller s ctrl = (0, roll_controller s)
        \<and> settings_get_pitch_controller s ctrl = (0, pitch_controller s)
        \<and> settings_get_yaw_controller s ctrl = (0, yaw_controller s)
        \<and> settings_get_altitude_controller s ctrl = (0, altitude_controller s)"
    if "was_load_successful s = 1" for s :: "'a state"
    using that
    by (simp add: settings_get_def settings_get_roll_controller_def
        settings_get_pitch_controller_def settings_get_yaw_controller_def
        settings_get_altitude_controller_def)
  have one: "was_load_successful (snd (loads es g)) = 0"
    if "was_load_successful g = 0 \<and> (\<forall>r \<in> set (fst (loads es g)). r \<noteq> 0)"
    using that loads_flag by blast
  have two: "was_load_successful g' = 1" if "settings_load_from_file e g = (0, g')"
    using that load_flag [of e g] by simp
  have three: "was_load_successful g' = 0" if "settings_load_from_file e g = (r, g') \<and> r \<noteq> 0"
    using that load_flag [of e g] by auto
  have four: "was_load_successful (snd (loads es g)) = 1"
    if "es \<noteq> [] \<and> last (fst (loads es g)) = 0"
    using that loads_last_flag [of es g] by simp
  have five: "was_load_successful (snd (loads es g)) = 0"
    if "es \<noteq> [] \<and> last (fst (loads es g)) \<noteq> 0"
    using that loads_last_flag [of es g] by simp
  show ?thesis
    using fail [OF one] ok [OF two] fail [OF three] ok [OF four] fail [OF five] by blast
qed

text \<open>The two loads of the next example: the defaults load, and the load of the file put on
  disk afterwards is refused for its layout.\<close>

lemma state_loaded_load:
  "settings_load_from_file (example_env 0) (state0 Missing) = (0, state_loaded)"
  using example_load_defaults [of 0] by (simp add: state_loaded_def prod_eq_iff)

lemma state_file_edited_load:
  "fst (settings_load_from_file (example_env 0) state_file_edited) = - 1"
  by (rule bad_layout_refused) (simp add: state_file_edited_def)

text \<open>
  C9 as stated fails: the settings file is missing, the defaults load with return value 0,
  and \<^verbatim>\<open>settings_get\<close> returns 0. Then a settings file with a layout that does not exist is
  put on disk and \<^verbatim>\<open>settings_load_from_file\<close> is called again: it clears
  \<^verbatim>\<open>was_load_successful\<close> and returns -1 at \<^verbatim>\<open>__parse_layout\<close>. After that, though a load has
  completed successfully before, \<^verbatim>\<open>settings_get\<close> and the four controller getters return -1
  and leave the caller's object as it was.
\<close>

theorem getters_fail_after_later_failed_load:
  "settings_load_from_file (example_env 0) (state0 Missing) = (0, state_loaded)
   \<and> settings_get state_loaded settings0 = (0, settings state_loaded)
   \<and> state_file_edited = state_loaded\<lparr>disk := OnDisk file_bad_layout\<rparr>
   \<and> fst (settings_load_from_file (example_env 0) state_file_edited) = - 1
   \<and> settings_get (snd (settings_load_from_file (example_env 0) state_file_edited)) settings0
        = (- 1, settings0)
   \<and> settings_get_roll_controller (snd (settings_load_from_file (example_env 0) state_file_edited))
        None = (- 1, None)
   \<and> settings_get_pitch_controller (snd (settings_load_from_file (example_env 0) state_file_edited))
        None = (- 1, None)
   \<and> settings_get_yaw_controller (snd (settings_load_from_file (example_env 0) state_file_edited))
        None = (- 1, None)
   \<and> settings_get_altitude_controller
        (snd (settings_load_from_file (example_env 0) state_file_edited)) None = (- 1, None)"
proof -
  have f1: "was_load_successful state_loaded = 1"
    using load_flag [of "example_env 0" "state0 Missing"] by (simp add: state_loaded_load)
  have f2: "was_load_successful (snd (settings_load_from_file (example_env 0) state_file_edited)) = 0"
    using load_flag [of "example_env 0" state_file_edited] by (simp add: state_file_edited_load)
  show ?thesis
    by (simp add: state_loaded_load state_file_edited_load f1 f2 settings_get_def
        settings_get_roll_controller_def settings_get_pitch_controller_def
        settings_get_yaw_controller_def settings_get_altitude_controller_def)
      (simp add: state_file_edited_def)
qed

text \<open>After a load refused for its layout the getters fail; after a load of the defaults
  they succeed; after a refused load that follows the load of the defaults they fail again;
  and after one load and after two the getters go by the return value of the last.\<close>

theorem getters_guarded_by_flag_witness:
  "(was_load_successful (state0 (OnDisk file_bad_layout)) = 0
      \<and> fst (loads [example_env 0] (state0 (OnDisk file_bad_layout))) = [- 1]
      \<and> settings_get (snd (loads [example_env 0] (state0 (OnDisk file_bad_layout)))) settings0
           = (- 1, settings0)
      \<and> settings_get_roll_controller (snd (loads [example_env 0] (state0 (OnDisk file_bad_layout))))
           None = (- 1, None))
   \<and> (settings_load_from_file (example_env 0) (state0 Missing) = (0, state_loaded)
      \<and> settings_get state_loaded settings0 = (0, settings state_loaded)
      \<and> settings_get_roll_controller state_loaded None = (0, roll_controller state_loaded))
   \<and> (was_load_successful state_file_edited = 1
      \<and> fst (settings_load_from_file (example_env 0) state_file_edited) = - 1
      \<and> settings_get (snd (settings_load_from_file (example_env 0) state_file_edited)) settings0
           = (- 1, settings0)
      \<and> settings_get_roll_controller
           (snd (settings_load_from_file (example_env 0) state_file_edited)) None = (- 1, None))
   \<and> (last (fst (loads [example_env 0] (state0 Missing))) = 0
      \<and> settings_get (snd (loads [example_env 0] (state0 Missing))) settings0
           = (0, settings (snd (loads [example_env 0] (state0 Missing)))))
   \<and> (last (fst (loads [example_env 0, example_env 0] (state0 (OnDisk file_bad_layout)))) = - 1
      \<and> settings_get (snd (loads [example_env 0, example_env 0] (state0 (OnDisk file_bad_layout))))
           settings0 = (- 1, settings0))"
proof -
  let ?bad = "state0 (OnDisk file_bad_layout)"
  have a: "fst (loads [example_env 0] ?bad) = [- 1]"
    by (simp add: bad_layout_load)
  have b: "was_load_successful ?bad = 0"
    by (simp add: state0_def)
  have c: "was_load_successful state_file_edited = 1"
    using load_flag [of "example_env 0" "state0 Missing"]
    by (simp add: state_file_edited_def state_loaded_load)
  have d: "settings_load_from_file (example_env 0) state_file_edited
             = (- 1, snd (settings_load_from_file (example_env 0) state_file_edited))"
    using state_file_edited_load by (simp add: prod_eq_iff)
  have e: "loads [example_env 0] (state0 Missing) = ([0], state_loaded)"
    by (simp add: state_loaded_load)
  have "fst (settings_load_from_file (example_env 0) (?bad\<lparr>jobj := file_bad_layout\<rparr>)) = - 1"
    by (rule bad_layout_refused) (simp add: state0_def)
  then have f: "fst (loads [example_env 0, example_env 0] ?bad) = [- 1, - 1]"
    by (cases "settings_load_from_file (example_env 0) (?bad\<lparr>jobj := file_bad_layout\<rparr>)")
      (simp add: bad_layout_load)
  note t1 = getters_guarded_by_flag [of ?bad "[example_env 0]" settings0 None
      "example_env 0" "snd (settings_load_from_file (example_env 0) ?bad)" "- 1"]
  note t2 = getters_guarded_by_flag [of "state0 Missing" "[example_env 0]" settings0 None
      "example_env 0" state_loaded 0]
  note t3 = getters_guarded_by_flag [of state_file_edited "[]" settings0 None
      "example_env 0" "snd (settings_load_from_file (example_env 0) state_file_edited)" "- 1"]
  note t4 = getters_guarded_by_flag [of ?bad "[example_env 0, example_env 0]" settings0 None
      "example_env 0" "snd (settings_load_from_file (example_env 0) ?bad)" "- 1"]
  from t1 a b have p1:
    "settings_get (snd (loads [example_env 0] ?bad)) settings0 = (- 1, settings0)"
    "settings_get_roll_controller (snd (loads [example_env 0] ?bad)) None = (- 1, None)"
    by simp_all
  from t2 state_loaded_load e have p2:
    "settings_get state_loaded settings0 = (0, settings state_loaded)"
    "settings_get_roll_controller state_loaded None = (0, roll_controller state_loaded)"
    "last (fst (loads [example_env 0] (state0 Missing))) = 0"
    "settings_get (snd (loads [example_env 0] (state0 Missing))) settings0
           = (0, settings (snd (loads [example_env 0] (state0 Missing))))"
    by simp_all
  from t3 d have p3:
    "settings_get (snd (settings_load_from_file (example_env 0) state_file_edited)) settings0
           = (- 1, settings0)"
    "settings_get_roll_controller
           (snd (settings_load_from_file (example_env 0) state_file_edited)) None = (- 1, None)"
    by simp_all
  from t4 f have p4:
    "last (fst (loads [example_env 0, example_env 0] ?bad)) = - 1"
    "settings_get (snd (loads [example_env 0, example_env 0] ?bad)) settings0 = (- 1, settings0)"
    by simp_all
  from a b c state_loaded_load state_file_edited_load p1 p2 p3 p4 show ?thesis by blast
qed

subsection \<open>A missing settings file\<close>

lemma PARSE_BOOL_ignores_disk: "ignores_disk (PARSE_BOOL name assign)"
  by (simp add: ignores_disk_def PARSE_BOOL_def split: option.splits)

lemma PARSE_INT_ignores_disk: "ignores_disk (PARSE_INT name assign)"
  by (simp add: ignores_disk_def PARSE_INT_def split: option.splits)

lemma PARSE_INT_MIN_MAX_ignores_disk: "ignores_disk (PARSE_INT_MIN_MAX name assign lo hi)"
  by (simp add: ignores_disk_def PARSE_INT_MIN_MAX_def Let_def split: option.splits)

lemma PARSE_POLARITY_ignores_disk: "ignores_disk (PARSE_POLARITY name assign)"
  by (simp add: ignores_disk_def PARSE_POLARITY_def Let_def split: option.splits)

lemma PARSE_DOUBLE_MIN_MAX_ignores_disk: "ignores_disk (PARSE_DOUBLE_MIN_MAX name lo hi)"
  by (simp add: ignores_disk_def PARSE_DOUBLE_MIN_MAX_def Let_def split: option.splits)

lemma parse_enable_logging_ignores_disk: "ignores_disk parse_enable_logging"
  by (simp add: ignores_disk_def parse_enable_logging_def split: option.splits)

lemma flight_mode_block_ignores_disk: "ignores_disk (flight_mode_block name field assign)"
  by (simp add: ignores_disk_def flight_mode_block_def Let_def split: option.splits prod.splits)

lemma controller_block_ignores_disk:
  "(\<And>s d. var (s\<lparr>disk := d\<rparr>) = var s) \<Longrightarrow>
   (\<And>v s d. assign v (s\<lparr>disk := d\<rparr>) = (assign v s)\<lparr>disk := d\<rparr>) \<Longrightarrow>
     ignores_disk (controller_block e name var assign)"
  by (simp add: ignores_disk_def controller_block_def Let_def split: option.splits prod.splits)

lemma check_feedback_hz_ignores_disk: "ignores_disk check_feedback_hz"
  by (simp add: ignores_disk_def check_feedback_hz_def)

lemma parse_layout_ignores_disk: "ignores_disk (return_m1_if failed (call u parse_layout))"
  by (simp add: ignores_disk_def return_m1_if_def call_def parse_layout_def Let_def
      split: option.splits)

lemma parse_thrust_map_ignores_disk: "ignores_disk (return_m1_if failed (call u parse_thrust_map))"
  by (simp add: ignores_disk_def return_m1_if_def call_def parse_thrust_map_def Let_def
      split: option.splits)

lemma parse_kill_mode_ignores_disk: "ignores_disk (return_m1_if failed (call u parse_kill_mode))"
  by (simp add: ignores_disk_def return_m1_if_def call_def parse_kill_mode_def Let_def
      split: option.splits)

lemmas ignore_disk = PARSE_BOOL_ignores_disk PARSE_INT_ignores_disk
  PARSE_INT_MIN_MAX_ignores_disk PARSE_POLARITY_ignores_disk PARSE_DOUBLE_MIN_MAX_ignores_disk
  parse_enable_logging_ignores_disk flight_mode_block_ignores_disk controller_block_ignores_disk
  check_feedback_hz_ignores_disk parse_layout_ignores_disk parse_thrust_map_ignores_disk
  parse_kill_mode_ignores_disk

lemma parse_ignores_disk: "st \<in> set (stmts_parse e) \<Longrightarrow> ignores_disk st"
  by (auto simp: stmts_defs intro!: ignore_disk)

lemma run_stmts_ignore_disk:
  assumes "\<And>st. st \<in> set sts \<Longrightarrow> ignores_disk st"
    and "\<And>s d. k (s\<lparr>disk := d\<rparr>) = (fst (k s), (snd (k s))\<lparr>disk := d\<rparr>)"
  shows "run_stmts sts k (s\<lparr>disk := d\<rparr>)
           = (fst (run_stmts sts k s), (snd (run_stmts sts k s))\<lparr>disk := d\<rparr>)"
  using assms(1)
proof (induction sts arbitrary: s)
  case Nil
  show ?case by (simp add: run_stmts_Nil assms(2))
next
  case (Cons st sts)
  have st: "st (s\<lparr>disk := d\<rparr>) = (fst (st s), (snd (st s))\<lparr>disk := d\<rparr>)"
    using Cons.prems [of st] by (simp add: ignores_disk_def)
  show ?case
  proof (cases "fst (st s)")
    case None
    then show ?thesis
      using Cons.IH [of "snd (st s)"] Cons.prems
      by (simp add: run_stmts_Cons then_stmt_fst_snd st)
  next
    case (Some r)
    then show ?thesis by (simp add: run_stmts_Cons then_stmt_fst_snd st)
  qed
qed

lemma controller_block_write_result:
  "controller_block (e\<lparr>json_object_to_file_ext := w\<rparr>) name var assign
     = controller_block e name var assign"
  by (rule ext) (simp add: controller_block_def split: option.splits)

lemma stmts_parse_write_result:
  "stmts_parse (e\<lparr>json_object_to_file_ext := w\<rparr>) = stmts_parse e"
  by (simp add: stmts_defs controller_block_write_result)

lemma load_missing:
  assumes "disk g = Missing"
  shows "settings_load_from_file e g =
     (let res = run_stmts (stmts_parse e) (\<lambda>g'. (0, g'\<lparr>was_load_successful := 1\<rparr>))
                  (g\<lparr>was_load_successful := 0, jobj := default_jobj\<rparr>)
      in (fst res, (snd res)\<lparr>disk := (if json_object_to_file_ext e \<noteq> 0 then Missing
                                        else OnDisk default_jobj)\<rparr>))"
proof -
  let ?k = "\<lambda>g'. (0::int, g'\<lparr>was_load_successful := 1\<rparr>)"
  let ?sj = "g\<lparr>was_load_successful := 0, jobj := default_jobj\<rparr>"
  let ?d = "if json_object_to_file_ext e \<noteq> 0 then Missing else OnDisk default_jobj"
  have rd: "read_settings e (g\<lparr>was_load_successful := 0\<rparr>) = (None, ?sj\<lparr>disk := ?d\<rparr>)"
    using assms
    by (simp add: read_settings_def load_default_settings_def write_settings_to_disk_def Let_def)
  have "run_stmts (stmts_parse e) ?k (?sj\<lparr>disk := ?d\<rparr>)
          = (fst (run_stmts (stmts_parse e) ?k ?sj), (snd (run_stmts (stmts_parse e) ?k ?sj))\<lparr>disk := ?d\<rparr>)"
    by (rule run_stmts_ignore_disk) (simp_all add: parse_ignores_disk)
  with rd show ?thesis by (simp add: load_unfold then_stmt_def Let_def)
qed

text \<open>
  C10. When the settings file is missing, the first statement of \<^verbatim>\<open>settings_load_from_file\<close>
  does not return: it leaves in \<^verbatim>\<open>jobj\<close> the defaults built by \<^verbatim>\<open>__load_default_settings\<close>, in
  which \<^verbatim>\<open>enable_logging\<close> is \<^verbatim>\<open>false\<close>, and the load goes on to the parsing statements.
  Whatever \<^verbatim>\<open>json_object_to_file_ext\<close> returns when the defaults are written, the return value
  and the settings are those of a load whose write succeeded: when the three functions
  without a \<^verbatim>\<open>return\<close> do not yield -1 and the discretisation succeeds, the load returns 0
  with \<^verbatim>\<open>settings.enable_logging\<close> equal to 0.
\<close>

theorem defaults_loaded_despite_write_failure:
  assumes "disk g = Missing"
  shows "read_settings e (g\<lparr>was_load_successful := 0\<rparr>)
        = (None, g\<lparr>was_load_successful := 0, jobj := default_jobj,
                   disk := (if json_object_to_file_ext e \<noteq> 0 then Missing
                            else OnDisk default_jobj)\<rparr>)
    \<and> settings_load_from_file e g
        = run_stmts (stmts_parse e) (\<lambda>g'. (0, g'\<lparr>was_load_successful := 1\<rparr>))
            (snd (read_settings e (g\<lparr>was_load_successful := 0\<rparr>)))
    \<and> json_object_object_get_ex default_jobj ''enable_logging'' = Some (json_boolean False)
    \<and> fst (settings_load_from_file e g)
        = fst (settings_load_from_file (e\<lparr>json_object_to_file_ext := 0\<rparr>) g)
    \<and> settings (snd (settings_load_from_file e g))
        = settings (snd (settings_load_from_file (e\<lparr>json_object_to_file_ext := 0\<rparr>) g))
    \<and> (layout_ret e \<noteq> - 1 \<and> thrust_map_ret e \<noteq> - 1 \<and> kill_mode_ret e \<noteq> - 1
         \<and> (\<forall>f dt n d w. fst (rc_filter_c2d_tustin (rc e) f dt n d w) = 0)
       \<longrightarrow> fst (settings_load_from_file e g) = 0
         \<and> enable_logging (settings (snd (settings_load_from_file e g))) = 0)"
proof (intro conjI impI)
  have src: "source g = default_jobj" using assms by (simp add: source_def)
  show rd: "read_settings e (g\<lparr>was_load_successful := 0\<rparr>)
        = (None, g\<lparr>was_load_successful := 0, jobj := default_jobj,
                   disk := (if json_object_to_file_ext e \<noteq> 0 then Missing
                            else OnDisk default_jobj)\<rparr>)"
    using assms
    by (simp add: read_settings_def load_default_settings_def write_settings_to_disk_def Let_def)
  show "settings_load_from_file e g
        = run_stmts (stmts_parse e) (\<lambda>g'. (0, g'\<lparr>was_load_successful := 1\<rparr>))
            (snd (read_settings e (g\<lparr>was_load_successful := 0\<rparr>)))"
    by (simp add: load_unfold then_stmt_def rd)
  show "json_object_object_get_ex default_jobj ''enable_logging'' = Some (json_boolean False)"
    by (simp add: default_lookups)
  show "fst (settings_load_from_file e g)
        = fst (settings_load_from_file (e\<lparr>json_object_to_file_ext := 0\<rparr>) g)"
    by (simp add: load_missing [OF assms] stmts_parse_write_result Let_def)
  show "settings (snd (settings_load_from_file e g))
        = settings (snd (settings_load_from_file (e\<lparr>json_object_to_file_ext := 0\<rparr>) g))"
    by (simp add: load_missing [OF assms] stmts_parse_write_result Let_def)
  assume ok: "layout_ret e \<noteq> - 1 \<and> thrust_map_ret e \<noteq> - 1 \<and> kill_mode_ret e \<noteq> - 1
         \<and> (\<forall>f dt n d w. fst (rc_filter_c2d_tustin (rc e) f dt n d w) = 0)"
  then show z: "fst (settings_load_from_file e g) = 0"
    by (intro load_defaults src) simp_all
  from load_success_values [OF z]
  show "enable_logging (settings (snd (settings_load_from_file e g))) = 0"
    by (auto simp: src default_lookups)
qed

text \<open>The file is missing and the write fails: the load returns 0.\<close>

theorem defaults_loaded_despite_write_failure_witness:
  "disk (state0 Missing) = Missing
   \<and> json_object_to_file_ext (example_env (- 1)) \<noteq> 0
   \<and> fst (write_settings_to_disk (example_env (- 1)) (state0 Missing)) = - 1
   \<and> jobj (snd (read_settings (example_env (- 1)) ((state0 Missing)\<lparr>was_load_successful := 0\<rparr>)))
        = default_jobj
   \<and> fst (settings_load_from_file (example_env (- 1)) (state0 Missing)) = 0
   \<and> enable_logging (settings (snd (settings_load_from_file (example_env (- 1)) (state0 Missing)))) = 0"
proof -
  have d: "disk (state0 Missing) = Missing" by (simp add: state0_def)
  have w: "json_object_to_file_ext (example_env (- 1)) \<noteq> 0"
    "fst (write_settings_to_disk (example_env (- 1)) (state0 Missing)) = - 1"
    by (simp_all add: example_env_def write_settings_to_disk_def)
  have lib: "\<forall>f dt n d w. fst (rc_filter_c2d_tustin (rc (example_env (- 1))) f dt n d w) = 0"
    by (simp add: example_env_ok)
  have j: "jobj (snd (read_settings (example_env (- 1))
              ((state0 Missing)\<lparr>was_load_successful := 0\<rparr>))) = default_jobj"
    by (simp add: read_settings_jobj source_def state0_def)
  show ?thesis
    using defaults_loaded_despite_write_failure [OF d, of "example_env (- 1)"] d w lib j
      example_env_ok(1-3) [of "- 1"]
    by blast
qed

end
